theory Spec2Isabelle
  imports Complex_Main "HOL-Library.Finite_Map"
begin

section \<open>JavaScript values\<close>

text \<open>
  The values that travel through the server are the results of \<^verbatim>\<open>JSON.parse\<close>. An object
  is a finite map from property names to values; the enumeration order of properties is
  not modelled (nothing below depends on it). A number in a JSON value is a finite
  double, held as the real it denotes. A \<^typ>\<open>char\<close> of a \<^typ>\<open>string\<close> stands
  for one UTF-16 code unit, so \<^const>\<open>length\<close> is JavaScript's \<^verbatim>\<open>.length\<close>.
  The value \<^verbatim>\<open>undefined\<close> is \<^const>\<open>None\<close> of an option type.
\<close>

datatype json =
    JNull
  | JBool bool
  | JNum real
  | JStr string
  | JArr "json list"
  | JObj "(string, json) fmap"

text \<open>
  A number the program computes is an IEEE double: finite, \<^verbatim>\<open>NaN\<close> or an infinity. The
  sign of zero is not modelled (nothing below reads it). Arithmetic rounds: the parameter
  \<open>rnd\<close> of the functions below is the rounding of an exact real to the nearest double
  (ties to even), which gives an infinity on overflow; the quotient and the product of two
  finite doubles are, by IEEE 754, the rounded exact quotient (for a divisor that is not
  zero) and the rounded exact product.
\<close>

datatype jsnumber = Finite real | NaN | PosInfinity | NegInfinity

text \<open>The product \<^verbatim>\<open>x * c\<close> of a number and a finite number \<open>c\<close>.\<close>

definition js_times :: "(real \<Rightarrow> jsnumber) \<Rightarrow> jsnumber \<Rightarrow> real \<Rightarrow> jsnumber" where
  "js_times rnd x c =
     (case x of
        Finite a \<Rightarrow> rnd (a * c)
      | NaN \<Rightarrow> NaN
      | PosInfinity \<Rightarrow> (if c = 0 then NaN else if 0 < c then PosInfinity else NegInfinity)
      | NegInfinity \<Rightarrow> (if c = 0 then NaN else if 0 < c then NegInfinity else PosInfinity))"

text \<open>The comparison \<^verbatim>\<open>x > c\<close> of a number with a finite number \<open>c\<close>; it is exact.\<close>

fun js_greater :: "jsnumber \<Rightarrow> real \<Rightarrow> bool" where
  "js_greater (Finite a) c = (c < a)"
| "js_greater NaN c = False"
| "js_greater PosInfinity c = True"
| "js_greater NegInfinity c = False"

text \<open>
  What \<^verbatim>\<open>JSON.stringify\<close> (and so \<^verbatim>\<open>res.json\<close>) writes for a number: a number that is not
  finite is written as \<^verbatim>\<open>null\<close>.
\<close>

definition stringify_number :: "jsnumber \<Rightarrow> json" where
  "stringify_number n = (case n of Finite r \<Rightarrow> JNum r | _ \<Rightarrow> JNull)"

text \<open>Truthiness, as \<^verbatim>\<open>!v\<close> and \<^verbatim>\<open>v || w\<close> read it.\<close>

fun truthy :: "json \<Rightarrow> bool" where
  "truthy JNull = False"
| "truthy (JBool b) = b"
| "truthy (JNum r) = (r \<noteq> 0)"
| "truthy (JStr s) = (s \<noteq> [])"
| "truthy (JArr xs) = True"
| "truthy (JObj m) = True"

section \<open>The validated request and the refund policy calculator\<close>

text \<open>
  The output of \<^verbatim>\<open>AnalyzeSchema.parse\<close>. For the two optional nullable numbers,
  \<^const>\<open>None\<close> is \<^verbatim>\<open>null\<close> or \<^verbatim>\<open>undefined\<close>: the code never tells them apart
  (\<^verbatim>\<open>!total\<close>, \<^verbatim>\<open>refunded == null\<close>).
\<close>

record AnalyzeInput =
  rawNotes :: string
  issueType :: string
  bookingTotal :: "real option"
  refundedAmount :: "real option"
  encouragedRefundCapPercent :: real
  maxRefundCapPercent :: real

text \<open>
  \<^verbatim>\<open>
  function computeRefundPercent(total, refunded) {
    if (!total || total <= 0) return null;
    if (refunded == null) return null;
    return (refunded / total) * 100;
  }
  \<close>
  The function is the same in both server files. The two arguments are numbers of the
  validated request, finite doubles; where the division is reached the total is positive,
  so the quotient is the rounded exact quotient.
\<close>

fun computeRefundPercent ::
  "(real \<Rightarrow> jsnumber) \<Rightarrow> real option \<Rightarrow> real option \<Rightarrow> jsnumber option" where
  "computeRefundPercent rnd None refunded = None"
| "computeRefundPercent rnd (Some tot) refunded =
     (if tot = 0 \<or> tot \<le> 0 then None
      else case refunded of
             None \<Rightarrow> None
           | Some r \<Rightarrow> Some (js_times rnd (rnd (r / tot)) 100))"

text \<open>
  The three constants the analysis handler computes before it builds the prompt:
  \<^verbatim>\<open>
  const refundPercent = computeRefundPercent(input.bookingTotal, input.refundedAmount);
  const softCapExceeded =
    refundPercent != null && refundPercent > input.encouragedRefundCapPercent;
  const hardCapExceeded =
    refundPercent != null && refundPercent > input.maxRefundCapPercent;
  \<close>
\<close>

definition refundPercent :: "(real \<Rightarrow> jsnumber) \<Rightarrow> AnalyzeInput \<Rightarrow> jsnumber option" where
  "refundPercent rnd input =
     computeRefundPercent rnd (bookingTotal input) (refundedAmount input)"

definition softCapExceeded :: "(real \<Rightarrow> jsnumber) \<Rightarrow> AnalyzeInput \<Rightarrow> bool" where
  "softCapExceeded rnd input =
     (case refundPercent rnd input of
        None \<Rightarrow> False
      | Some p \<Rightarrow> js_greater p (encouragedRefundCapPercent input))"

definition hardCapExceeded :: "(real \<Rightarrow> jsnumber) \<Rightarrow> AnalyzeInput \<Rightarrow> bool" where
  "hardCapExceeded rnd input =
     (case refundPercent rnd input of
        None \<Rightarrow> False
      | Some p \<Rightarrow> js_greater p (maxRefundCapPercent input))"

section \<open>Reading structured values\<close>

text \<open>
  Property access \<^verbatim>\<open>v.name\<close> on a value that is neither \<^verbatim>\<open>null\<close> nor
  \<^verbatim>\<open>undefined\<close>, for the names the server reads (\<^verbatim>\<open>policy\<close>, \<^verbatim>\<open>candidates\<close>,
  \<^verbatim>\<open>content\<close>, \<^verbatim>\<open>parts\<close>, \<^verbatim>\<open>text\<close>): none of them is an index, \<^verbatim>\<open>length\<close> or a
  name on a built-in prototype, so only an object can have it.
\<close>

fun property :: "string \<Rightarrow> json \<Rightarrow> json option" where
  "property k (JObj m) = fmlookup m k"
| "property k v = None"

text \<open>Element access \<^verbatim>\<open>v[0]\<close> on a value that is neither \<^verbatim>\<open>null\<close> nor \<^verbatim>\<open>undefined\<close>.\<close>

fun first_elem :: "json \<Rightarrow> json option" where
  "first_elem (JArr xs) = (case xs of [] \<Rightarrow> None | x # _ \<Rightarrow> Some x)"
| "first_elem (JStr s) = (case s of [] \<Rightarrow> None | c # _ \<Rightarrow> Some (JStr [c]))"
| "first_elem (JObj m) = fmlookup m ''0''"
| "first_elem v = None"

text \<open>Optional chaining \<^verbatim>\<open>a?.f\<close>: \<^verbatim>\<open>undefined\<close> when \<^verbatim>\<open>a\<close> is \<^verbatim>\<open>null\<close> or \<^verbatim>\<open>undefined\<close>.\<close>

definition opt_chain :: "json option \<Rightarrow> (json \<Rightarrow> json option) \<Rightarrow> json option" where
  "opt_chain a f = (case a of None \<Rightarrow> None | Some JNull \<Rightarrow> None | Some v \<Rightarrow> f v)"

text \<open>Decimal rendering of an array index, the property name that a spread gives it.\<close>

function show_nat :: "nat \<Rightarrow> string" where
  "show_nat n =
     (if n < 10 then [char_of (48 + n)]
      else show_nat (n div 10) @ [char_of (48 + n mod 10)])"
  by pat_completeness auto
termination
  by (relation "measure id") auto

text \<open>
  The own enumerable properties that \<^verbatim>\<open>{...v}\<close> copies: those of an object, the indexed
  elements of an array, the indexed code units of a string, and nothing for \<^verbatim>\<open>null\<close>, a
  number or a boolean.
\<close>

fun spread :: "json \<Rightarrow> (string, json) fmap" where
  "spread (JObj m) = m"
| "spread (JArr xs) = fmap_of_list (zip (map show_nat [0..<length xs]) xs)"
| "spread (JStr s) = fmap_of_list (zip (map show_nat [0..<length s]) (map (\<lambda>c. JStr [c]) s))"
| "spread v = fmempty"

section \<open>What the server takes from its runtime\<close>

text \<open>
  The library functions the server code calls are parameters:
  \<^item> \<open>JSON_parse\<close> is \<^verbatim>\<open>JSON.parse\<close>: applied to \<open>JStr s\<close> it parses the text \<open>s\<close>, any
    other argument it first converts to a string; the result is the parsed value, or
    \<^const>\<open>Inl\<close> of the message of the \<^verbatim>\<open>SyntaxError\<close> it throws;
  \<^item> \<open>ZodError_message\<close> is the \<^verbatim>\<open>message\<close> of the error \<^verbatim>\<open>AnalyzeSchema.parse\<close> throws.

  The outcome of the one \<^verbatim>\<open>fetch\<close> that \<^verbatim>\<open>geminiGenerateJson\<close> awaits is a
  \<open>fetch_outcome\<close>: the promise is rejected with a message, or it resolves to a response
  with its \<^verbatim>\<open>ok\<close> flag and its body text.
\<close>

datatype fetch_outcome =
    Rejected string
  | Resolved bool string

datatype zod_code = invalid_type | too_small

type_synonym zod_issue = "string \<times> zod_code"

record env =
  JSON_parse :: "json \<Rightarrow> string + json"
  ZodError_message :: "zod_issue list \<Rightarrow> string"

text \<open>Every value the server code throws is an \<^verbatim>\<open>Error\<close> with a message.\<close>

datatype js_error =
    ZodError "zod_issue list"
  | SyntaxError string
  | TypeError string
  | Error string

fun message :: "env \<Rightarrow> js_error \<Rightarrow> string" where
  "message e (ZodError issues) = ZodError_message e issues"
| "message e (SyntaxError m) = m"
| "message e (TypeError m) = m"
| "message e (Error m) = m"

text \<open>\<^verbatim>\<open>JSON.parse(v)\<close>, with the error it throws as a value.\<close>

definition parse_value :: "env \<Rightarrow> json \<Rightarrow> js_error + json" where
  "parse_value e v =
     (case JSON_parse e v of
        Inl m \<Rightarrow> Inl (SyntaxError m)
      | Inr j \<Rightarrow> Inr j)"

section \<open>Request validation\<close>

text \<open>
  \<^verbatim>\<open>
  const AnalyzeSchema = z.object({
    rawNotes: z.string().min(10),
    issueType: z.string().min(1),
    bookingTotal: z.number().nullable().optional(),
    refundedAmount: z.number().nullable().optional(),
    encouragedRefundCapPercent: z.number().default(15),
    maxRefundCapPercent: z.number().default(20),
  });
  \<close>
  Each field schema reads the property of that name (\<^const>\<open>None\<close> when the body has
  none) and gives its value or its issues; the object schema collects the issues of all
  fields, drops unknown properties and rejects a body that is not an object.
\<close>

definition zString :: "nat \<Rightarrow> string \<Rightarrow> json option \<Rightarrow> zod_issue list + string" where
  "zString n key v =
     (case v of
        Some (JStr s) \<Rightarrow> if length s < n then Inl [(key, too_small)] else Inr s
      | _ \<Rightarrow> Inl [(key, invalid_type)])"

definition zNumberNullableOptional :: "string \<Rightarrow> json option \<Rightarrow> zod_issue list + real option" where
  "zNumberNullableOptional key v =
     (case v of
        None \<Rightarrow> Inr None
      | Some JNull \<Rightarrow> Inr None
      | Some (JNum r) \<Rightarrow> Inr (Some r)
      | _ \<Rightarrow> Inl [(key, invalid_type)])"

definition zNumberDefault :: "real \<Rightarrow> string \<Rightarrow> json option \<Rightarrow> zod_issue list + real" where
  "zNumberDefault d key v =
     (case v of
        None \<Rightarrow> Inr d
      | Some (JNum r) \<Rightarrow> Inr r
      | _ \<Rightarrow> Inl [(key, invalid_type)])"

definition issues_of :: "zod_issue list + 'a \<Rightarrow> zod_issue list" where
  "issues_of r = (case r of Inl issues \<Rightarrow> issues | Inr _ \<Rightarrow> [])"

definition AnalyzeSchema_parse :: "json option \<Rightarrow> zod_issue list + AnalyzeInput" where
  "AnalyzeSchema_parse body =
     (case body of
        Some (JObj m) \<Rightarrow>
          (let rn = zString 10 ''rawNotes'' (fmlookup m ''rawNotes'');
               it = zString 1 ''issueType'' (fmlookup m ''issueType'');
               bt = zNumberNullableOptional ''bookingTotal'' (fmlookup m ''bookingTotal'');
               ra = zNumberNullableOptional ''refundedAmount'' (fmlookup m ''refundedAmount'');
               ec = zNumberDefault 15 ''encouragedRefundCapPercent''
                      (fmlookup m ''encouragedRefundCapPercent'');
               mc = zNumberDefault 20 ''maxRefundCapPercent''
                      (fmlookup m ''maxRefundCapPercent'');
               issues = issues_of rn @ issues_of it @ issues_of bt @ issues_of ra
                          @ issues_of ec @ issues_of mc
           in case rn of Inl _ \<Rightarrow> Inl issues | Inr n \<Rightarrow>
             (case it of Inl _ \<Rightarrow> Inl issues | Inr i \<Rightarrow>
             (case bt of Inl _ \<Rightarrow> Inl issues | Inr b \<Rightarrow>
             (case ra of Inl _ \<Rightarrow> Inl issues | Inr r \<Rightarrow>
             (case ec of Inl _ \<Rightarrow> Inl issues | Inr c \<Rightarrow>
             (case mc of Inl _ \<Rightarrow> Inl issues | Inr x \<Rightarrow>
                Inr \<lparr>rawNotes = n, issueType = i, bookingTotal = b, refundedAmount = r,
                     encouragedRefundCapPercent = c, maxRefundCapPercent = x\<rparr>))))))
      | _ \<Rightarrow> Inl [([], invalid_type)])"

section \<open>The reasoning engine client\<close>

text \<open>
  \<^verbatim>\<open>
  const modelText = json?.candidates?.[0]?.content?.parts?.[0]?.text ?? "";
  \<close>
\<close>

definition modelText_of :: "json \<Rightarrow> json" where
  "modelText_of j =
     (case opt_chain (opt_chain (opt_chain (opt_chain (opt_chain (opt_chain (Some j)
             (property ''candidates'')) first_elem) (property ''content''))
             (property ''parts'')) first_elem) (property ''text'') of
        None \<Rightarrow> JStr []
      | Some JNull \<Rightarrow> JStr []
      | Some v \<Rightarrow> v)"

text \<open>
  \<^verbatim>\<open>indexOf\<close>, \<^verbatim>\<open>lastIndexOf\<close> and \<^verbatim>\<open>slice\<close> of strings (on code units) and of arrays
  (on elements, compared strictly); \<open>- 1\<close> when there is no occurrence.
\<close>

fun indexOf :: "'a \<Rightarrow> 'a list \<Rightarrow> int" where
  "indexOf c [] = - 1"
| "indexOf c (x # xs) =
     (if x = c then 0 else (let i = indexOf c xs in if i = - 1 then - 1 else i + 1))"

definition lastIndexOf :: "'a \<Rightarrow> 'a list \<Rightarrow> int" where
  "lastIndexOf c xs =
     (let i = indexOf c (rev xs) in if i = - 1 then - 1 else int (length xs) - 1 - i)"

definition slice :: "'a list \<Rightarrow> int \<Rightarrow> int \<Rightarrow> 'a list" where
  "slice xs start stop =
     (let n = int (length xs);
          k = (if start < 0 then max (n + start) 0 else min start n);
          f = (if stop < 0 then max (n + stop) 0 else min stop n)
      in take (nat (f - k)) (drop (nat k) xs))"

text \<open>
  The \<^verbatim>\<open>catch\<close> block of \<^verbatim>\<open>src/server/server.js\<close>:
  \<^verbatim>\<open>
  const start = modelText.indexOf("{");
  const end = modelText.lastIndexOf("}");
  if (start === -1 || end === -1 || end <= start) {
    throw new Error("Model did not return JSON");
  }
  return JSON.parse(modelText.slice(start, end + 1));
  \<close>
  A string and an array have the three methods; on any other value the first call throws.
\<close>

definition brace_fallback :: "env \<Rightarrow> json \<Rightarrow> js_error + json" where
  "brace_fallback e modelText =
     (case modelText of
        JStr s \<Rightarrow>
          (let start = indexOf (CHR ''{'') s; stop = lastIndexOf (CHR ''}'') s
           in if start = - 1 \<or> stop = - 1 \<or> stop \<le> start
              then Inl (Error ''Model did not return JSON'')
              else parse_value e (JStr (slice s start (stop + 1))))
      | JArr xs \<Rightarrow>
          (let start = indexOf (JStr ''{'') xs; stop = lastIndexOf (JStr ''}'') xs
           in if start = - 1 \<or> stop = - 1 \<or> stop \<le> start
              then Inl (Error ''Model did not return JSON'')
              else parse_value e (JArr (slice xs start (stop + 1))))
      | _ \<Rightarrow> Inl (TypeError ''modelText.indexOf is not a function''))"

text \<open>
  \<^verbatim>\<open>geminiGenerateJson\<close> of \<^verbatim>\<open>src/server/server.js\<close>, as a function of the outcome of its
  one request: a transport failure throws the raw body; the body is parsed and the model
  text taken from it; a falsy text throws; the text is parsed strictly and, if that
  throws, through the brace fallback.
\<close>

definition geminiGenerateJson_server_js :: "env \<Rightarrow> fetch_outcome \<Rightarrow> js_error + json" where
  "geminiGenerateJson_server_js e outcome =
     (case outcome of
        Rejected m \<Rightarrow> Inl (TypeError m)
      | Resolved ok raw \<Rightarrow>
          if \<not> ok then Inl (Error raw)
          else (case parse_value e (JStr raw) of
                  Inl err \<Rightarrow> Inl err
                | Inr j \<Rightarrow>
                    (let modelText = modelText_of j
                     in if \<not> truthy modelText then Inl (Error ''No model text returned'')
                        else (case parse_value e modelText of
                                Inr v \<Rightarrow> Inr v
                              | Inl _ \<Rightarrow> brace_fallback e modelText))))"

text \<open>
  \<^verbatim>\<open>geminiGenerateJson\<close> of the server with the policy block (\<^verbatim>\<open>src/unnamed/part_001\<close>):
  the same up to the model text, which is then parsed strictly only:
  \<^verbatim>\<open>
  // Should already be JSON due to responseMimeType
  return JSON.parse(modelText);
  \<close>
\<close>

definition geminiGenerateJson_part_001 :: "env \<Rightarrow> fetch_outcome \<Rightarrow> js_error + json" where
  "geminiGenerateJson_part_001 e outcome =
     (case outcome of
        Rejected m \<Rightarrow> Inl (TypeError m)
      | Resolved ok raw \<Rightarrow>
          if \<not> ok then Inl (Error raw)
          else (case parse_value e (JStr raw) of
                  Inl err \<Rightarrow> Inl err
                | Inr j \<Rightarrow>
                    (let modelText = modelText_of j
                     in if \<not> truthy modelText then Inl (Error ''No model text returned'')
                        else parse_value e modelText)))"

section \<open>The result reconciler\<close>

text \<open>
  \<^verbatim>\<open>
  // Ensure policy object is present even if model forgets
  const merged = {
    ...data,
    policy: {
      encouraged_cap_percent: input.encouragedRefundCapPercent,
      max_cap_percent: input.maxRefundCapPercent,
      refund_percent: refundPercent,
      soft_cap_exceeded: softCapExceeded,
      hard_cap_exceeded: hardCapExceeded,
      ...(data?.policy || {}),
    },
  };
  \<close>
  In an object literal a later property, spread or written out, replaces an earlier one of
  the same name: \<open>m ++\<^sub>f n\<close> is \<^verbatim>\<open>{...m, ...n}\<close>. The object is modelled as \<^verbatim>\<open>res.json\<close>
  sends it, so the computed percent is there as \<^verbatim>\<open>JSON.stringify\<close> writes it.
\<close>

definition num_or_null :: "jsnumber option \<Rightarrow> json" where
  "num_or_null r = (case r of None \<Rightarrow> JNull | Some x \<Rightarrow> stringify_number x)"

definition localPolicy :: "(real \<Rightarrow> jsnumber) \<Rightarrow> AnalyzeInput \<Rightarrow> (string, json) fmap" where
  "localPolicy rnd input = fmap_of_list
     [(''encouraged_cap_percent'', JNum (encouragedRefundCapPercent input)),
      (''max_cap_percent'', JNum (maxRefundCapPercent input)),
      (''refund_percent'', num_or_null (refundPercent rnd input)),
      (''soft_cap_exceeded'', JBool (softCapExceeded rnd input)),
      (''hard_cap_exceeded'', JBool (hardCapExceeded rnd input))]"

definition enginePolicy :: "json \<Rightarrow> json" where
  "enginePolicy data =
     (case opt_chain (Some data) (property ''policy'') of
        None \<Rightarrow> JObj fmempty
      | Some p \<Rightarrow> if truthy p then p else JObj fmempty)"

definition merged ::
  "(real \<Rightarrow> jsnumber) \<Rightarrow> AnalyzeInput \<Rightarrow> json \<Rightarrow> (string, json) fmap" where
  "merged rnd input data =
     fmupd ''policy'' (JObj (localPolicy rnd input ++\<^sub>f spread (enginePolicy data)))
       (spread data)"

section \<open>The analysis endpoint\<close>

text \<open>
  A response is a status and a JSON body. The handler is run on the request body
  (\<^const>\<open>None\<close> when \<^verbatim>\<open>req.body\<close> is \<^verbatim>\<open>undefined\<close>). The prompt is built from the
  validated request by pure string construction that cannot throw, and no property below
  depends on its wording, so the engine is a function \<open>engine\<close> from the validated request
  to the outcome of the request sent for its prompt. The handler returns its response
  together with the validated requests for which the engine was invoked, in order. The
  \<^verbatim>\<open>catch\<close> turns whatever was thrown into \<^verbatim>\<open>res.status(400).json({ error: msg })\<close>.
\<close>

datatype response = Response nat json

fun status :: "response \<Rightarrow> nat" where
  "status (Response s b) = s"

fun body_of :: "response \<Rightarrow> json" where
  "body_of (Response s b) = b"

definition error_response :: "env \<Rightarrow> js_error \<Rightarrow> response" where
  "error_response e err = Response 400 (JObj (fmap_of_list [(''error'', JStr (message e err))]))"

text \<open>\<^verbatim>\<open>app.post("/api/analyze", ...)\<close> of \<^verbatim>\<open>src/unnamed/part_001\<close>.\<close>

definition api_analyze ::
  "(real \<Rightarrow> jsnumber) \<Rightarrow> env \<Rightarrow> (AnalyzeInput \<Rightarrow> fetch_outcome) \<Rightarrow> json option
     \<Rightarrow> response \<times> AnalyzeInput list" where
  "api_analyze rnd e engine body =
     (case AnalyzeSchema_parse body of
        Inl issues \<Rightarrow> (error_response e (ZodError issues), [])
      | Inr input \<Rightarrow>
          (case geminiGenerateJson_part_001 e (engine input) of
             Inl err \<Rightarrow> (error_response e err, [input])
           | Inr data \<Rightarrow> (Response 200 (JObj (merged rnd input data)), [input])))"

text \<open>
  \<^verbatim>\<open>app.post("/api/analyze", ...)\<close> of \<^verbatim>\<open>src/server/server.js\<close>, which answers with the
  engine output as it is (\<^verbatim>\<open>res.json(data)\<close>).
\<close>

definition api_analyze_server_js ::
  "env \<Rightarrow> (AnalyzeInput \<Rightarrow> fetch_outcome) \<Rightarrow> json option \<Rightarrow> response \<times> AnalyzeInput list" where
  "api_analyze_server_js e engine body =
     (case AnalyzeSchema_parse body of
        Inl issues \<Rightarrow> (error_response e (ZodError issues), [])
      | Inr input \<Rightarrow>
          (case geminiGenerateJson_server_js e (engine input) of
             Inl err \<Rightarrow> (error_response e err, [input])
           | Inr data \<Rightarrow> (Response 200 data, [input])))"

section \<open>The client workflow\<close>

text \<open>
  The conversion \<^verbatim>\<open>Number(value)\<close> of a string is a library function and a parameter
  \<open>num\<close> here; by the language standard it maps the empty string to \<open>0\<close>.
  \<^verbatim>\<open>
  function toNumber(value: string): number | null {
    const n = Number(value);
    return Number.isFinite(n) ? n : null;
  }
  \<close>
\<close>

definition toNumber :: "(string \<Rightarrow> jsnumber) \<Rightarrow> string \<Rightarrow> real option" where
  "toNumber num v = (case num v of Finite n \<Rightarrow> Some n | _ \<Rightarrow> None)"

text \<open>
  The percent the form shows, recomputed from the two input strings:
  \<^verbatim>\<open>
  const refundPercent = useMemo<number | null>(() => {
    const total = toNumber(bookingTotal);
    const refunded = toNumber(refundedAmount);
    if (!total || total <= 0 || refunded == null) return null;
    return (refunded / total) * 100;
  }, [bookingTotal, refundedAmount]);
  \<close>
\<close>

definition App_refundPercent ::
  "(real \<Rightarrow> jsnumber) \<Rightarrow> (string \<Rightarrow> jsnumber) \<Rightarrow> string \<Rightarrow> string \<Rightarrow> jsnumber option" where
  "App_refundPercent rnd num bt ra =
     (let tot = toNumber num bt; refunded = toNumber num ra
      in case tot of
           None \<Rightarrow> None
         | Some t \<Rightarrow>
             if t = 0 \<or> t \<le> 0 then None
             else (case refunded of
                     None \<Rightarrow> None
                   | Some r \<Rightarrow> Some (js_times rnd (rnd (r / t)) 100)))"

text \<open>
  The request body built by \<^verbatim>\<open>handleAnalyze\<close>, as the server's JSON parser returns it:
  \<^verbatim>\<open>
  const payload = {
    rawNotes,
    issueType,
    bookingTotal: bookingTotal ? Number(bookingTotal) : null,
    refundedAmount: refundedAmount ? Number(refundedAmount) : null,
    encouragedRefundCapPercent: 15,
    maxRefundCapPercent: 20
  };
  \<close>
\<close>

definition App_payload ::
  "(string \<Rightarrow> jsnumber) \<Rightarrow> string \<Rightarrow> string \<Rightarrow> string \<Rightarrow> string \<Rightarrow> (string, json) fmap" where
  "App_payload num notes issue bt ra = fmap_of_list
     [(''rawNotes'', JStr notes),
      (''issueType'', JStr issue),
      (''bookingTotal'', if bt \<noteq> [] then stringify_number (num bt) else JNull),
      (''refundedAmount'', if ra \<noteq> [] then stringify_number (num ra) else JNull),
      (''encouragedRefundCapPercent'', JNum 15),
      (''maxRefundCapPercent'', JNum 20)]"

section \<open>Example inputs\<close>

text \<open>
  Concrete values for the parameters, used where a property is evaluated on an example.
  \<open>example_JSON_parse\<close> agrees with \<^verbatim>\<open>JSON.parse\<close> on the texts the examples parse: four
  engine responses (whose model text is JSON wrapped in prose, plain JSON, prose without
  braces, and missing) and the text \<^verbatim>\<open>{}\<close>; every other text in the examples is prose
  that \<^verbatim>\<open>JSON.parse\<close> rejects. \<open>example_ZodError_message\<close> stands for zod's rendering of
  the issues, and \<open>example_Number\<close> agrees with \<^verbatim>\<open>Number\<close> on the empty string and on
  \<^verbatim>\<open>100\<close>. \<open>example_rnd\<close> agrees with the rounding to the nearest double on the reals the
  examples round: the doubles 0, 0.25, 1.5, 25 and 150, which it leaves as they are; the
  quotients 10 / 100 and 15 / 100, whose nearest doubles are the two fractions with
  denominator \<open>2 ^ 55\<close>; and the products of those two doubles with 100, whose nearest
  doubles are 10 and 15.
\<close>

definition example_rnd :: "real \<Rightarrow> jsnumber" where
  "example_rnd x =
     (if x = 0 \<or> x = 1 / 4 \<or> x = 3 / 2 \<or> x = 25 \<or> x = 150 then Finite x
      else if x = 10 / 100 then Finite (3602879701896397 / 2 ^ 55)
      else if x = 3602879701896397 / 2 ^ 55 * 100 then Finite 10
      else if x = 15 / 100 then Finite (5404319552844595 / 2 ^ 55)
      else if x = 5404319552844595 / 2 ^ 55 * 100 then Finite 15
      else NaN)"

definition example_raw :: string where
  \<open>example_raw = ''{"candidates":[{"content":{"parts":[{"text":"Sure: {}"}]}}]}''\<close>

definition example_raw_strict :: string where
  \<open>example_raw_strict = ''{"candidates":[{"content":{"parts":[{"text":"{}"}]}}]}''\<close>

definition example_raw_prose :: string where
  \<open>example_raw_prose = ''{"candidates":[{"content":{"parts":[{"text":"no json here"}]}}]}''\<close>

definition example_raw_empty :: string where
  \<open>example_raw_empty = ''{"candidates":[]}''\<close>

definition example_candidates :: "string \<Rightarrow> json" where
  "example_candidates t =
     JObj (fmap_of_list [(''candidates'', JArr [JObj (fmap_of_list
       [(''content'', JObj (fmap_of_list [(''parts'', JArr [JObj (fmap_of_list
         [(''text'', JStr t)])])]))])])])"

definition example_JSON_parse :: "json \<Rightarrow> string + json" where
  "example_JSON_parse v =
     (if v = JStr example_raw then Inr (example_candidates ''Sure: {}'')
      else if v = JStr example_raw_strict then Inr (example_candidates ''{}'')
      else if v = JStr example_raw_prose then Inr (example_candidates ''no json here'')
      else if v = JStr example_raw_empty then Inr (JObj (fmap_of_list [(''candidates'', JArr [])]))
      else if v = JStr ''{}'' then Inr (JObj fmempty)
      else Inl ''Unexpected token'')"

definition example_ZodError_message :: "zod_issue list \<Rightarrow> string" where
  "example_ZodError_message issues = concat (map fst issues)"

definition example_env :: env where
  "example_env = \<lparr>JSON_parse = example_JSON_parse, ZodError_message = example_ZodError_message\<rparr>"

definition example_Number :: "string \<Rightarrow> jsnumber" where
  "example_Number s = (if s = [] then Finite 0 else if s = ''100'' then Finite 100 else NaN)"

definition example_input :: AnalyzeInput where
  "example_input = \<lparr>rawNotes = ''guest disputes the charge'', issueType = ''Refund'',
     bookingTotal = Some 100, refundedAmount = Some 10,
     encouragedRefundCapPercent = 15, maxRefundCapPercent = 20\<rparr>"

text \<open>
  A request body that validates to \<open>example_input\<close> (the caps are left out and take their
  defaults), one whose notes are too short, and engines that answer every prompt with
  the same outcome.
\<close>

definition example_body :: json where
  "example_body = JObj (fmap_of_list
     [(''rawNotes'', JStr ''guest disputes the charge''),
      (''issueType'', JStr ''Refund''),
      (''bookingTotal'', JNum 100),
      (''refundedAmount'', JNum 10)])"

definition example_short_body :: json where
  "example_short_body = JObj (fmap_of_list
     [(''rawNotes'', JStr ''short''),
      (''issueType'', JStr ''Refund'')])"

definition example_engine :: "fetch_outcome \<Rightarrow> AnalyzeInput \<Rightarrow> fetch_outcome" where
  "example_engine outcome input = outcome"

section \<open>Properties of the refund policy calculator\<close>

lemma example_percent:
  "computeRefundPercent example_rnd (Some 100) (Some 10) = Some (Finite 10)"
  "computeRefundPercent example_rnd (Some 100) (Some 15) = Some (Finite 15)"
  "computeRefundPercent example_rnd (Some 100) (Some 25) = Some (Finite 25)"
  "computeRefundPercent example_rnd (Some 100) (Some 150) = Some (Finite 150)"
  "computeRefundPercent example_rnd None (Some 50) = None"
  by (simp_all add: js_times_def example_rnd_def)

text \<open>
  Claim C2. For every pair of inputs: when the total is missing, zero or negative, or the
  refunded amount is missing, \<open>computeRefundPercent\<close> returns the absent value (neither
  zero nor an error); in every other case it returns \<open>(refunded / total) * 100\<close> as the
  program evaluates it, the rounded product with 100 of the rounded quotient, which is
  the exact real \<open>refunded / total * 100\<close> where neither operation rounds; and that number
  can be larger than 100.
\<close>

theorem computeRefundPercent_fails_closed:
  "((tot = None \<or> (\<exists>t. tot = Some t \<and> t \<le> 0) \<or> refunded = None)
      \<longrightarrow> computeRefundPercent rnd tot refunded = None)
   \<and> (\<forall>t r. tot = Some t \<and> 0 < t \<and> refunded = Some r
         \<longrightarrow> computeRefundPercent rnd tot refunded = Some (js_times rnd (rnd (r / t)) 100))
   \<and> (\<forall>t r. tot = Some t \<and> 0 < t \<and> refunded = Some r
          \<and> rnd (r / t) = Finite (r / t) \<and> rnd (r / t * 100) = Finite (r / t * 100)
         \<longrightarrow> computeRefundPercent rnd tot refunded = Some (Finite (r / t * 100)))
   \<and> (rnd (150 / 100) = Finite (3 / 2) \<and> rnd (3 / 2 * 100) = Finite 150
         \<longrightarrow> (\<exists>p. computeRefundPercent rnd (Some 100) (Some 150) = Some (Finite p) \<and> 100 < p))"
proof (intro conjI impI allI)
  assume "tot = None \<or> (\<exists>t. tot = Some t \<and> t \<le> 0) \<or> refunded = None"
  then show "computeRefundPercent rnd tot refunded = None"
    by (cases tot; cases refunded) auto
next
  fix t r :: real
  assume "tot = Some t \<and> 0 < t \<and> refunded = Some r"
  then show "computeRefundPercent rnd tot refunded = Some (js_times rnd (rnd (r / t)) 100)"
    by simp
next
  fix t r :: real
  assume "tot = Some t \<and> 0 < t \<and> refunded = Some r
          \<and> rnd (r / t) = Finite (r / t) \<and> rnd (r / t * 100) = Finite (r / t * 100)"
  then show "computeRefundPercent rnd tot refunded = Some (Finite (r / t * 100))"
    by (simp add: js_times_def)
next
  assume "rnd (150 / 100) = Finite (3 / 2) \<and> rnd (3 / 2 * 100) = Finite 150"
  then have "computeRefundPercent rnd (Some 100) (Some 150) = Some (Finite 150)"
    by (simp add: js_times_def)
  then show "\<exists>p. computeRefundPercent rnd (Some 100) (Some 150) = Some (Finite p) \<and> 100 < p"
    by simp
qed

theorem computeRefundPercent_fails_closed_witness:
  "computeRefundPercent example_rnd None (Some 50) = None
   \<and> computeRefundPercent example_rnd (Some 0) (Some 50) = None
   \<and> computeRefundPercent example_rnd (Some (- 3)) (Some 50) = None
   \<and> computeRefundPercent example_rnd (Some 100) None = None
   \<and> computeRefundPercent example_rnd (Some 100) (Some 25) = Some (Finite 25)
   \<and> computeRefundPercent example_rnd (Some 100) (Some 15) = Some (Finite 15)
   \<and> (\<exists>p. computeRefundPercent example_rnd (Some 100) (Some 150) = Some (Finite p) \<and> 100 < p)"
proof -
  have a: "computeRefundPercent example_rnd None (Some 50) = None"
    using computeRefundPercent_fails_closed [of None "Some 50" example_rnd] by simp
  have b: "computeRefundPercent example_rnd (Some 0) (Some 50) = None"
    using computeRefundPercent_fails_closed [of "Some 0" "Some 50" example_rnd] by simp
  have c: "computeRefundPercent example_rnd (Some (- 3)) (Some 50) = None"
    using computeRefundPercent_fails_closed [of "Some (- 3)" "Some 50" example_rnd] by simp
  have d: "computeRefundPercent example_rnd (Some 100) None = None"
    using computeRefundPercent_fails_closed [of "Some 100" None example_rnd] by simp
  have e: "computeRefundPercent example_rnd (Some 100) (Some 25) = Some (Finite 25)"
    using computeRefundPercent_fails_closed [of "Some 100" "Some 25" example_rnd,
        THEN conjunct2, THEN conjunct2, THEN conjunct1, rule_format, of 100 25]
    by (simp add: example_rnd_def del: computeRefundPercent.simps)
  have f: "computeRefundPercent example_rnd (Some 100) (Some 15) = Some (Finite 15)"
    using computeRefundPercent_fails_closed [of "Some 100" "Some 15" example_rnd,
        THEN conjunct2, THEN conjunct1, rule_format, of 100 15]
    by (simp add: js_times_def example_rnd_def del: computeRefundPercent.simps)
  have g: "\<exists>p. computeRefundPercent example_rnd (Some 100) (Some 150) = Some (Finite p)
      \<and> 100 < p"
    using computeRefundPercent_fails_closed [of "Some 100" "Some 150" example_rnd,
        THEN conjunct2, THEN conjunct2, THEN conjunct2]
    by (simp add: example_rnd_def del: computeRefundPercent.simps)
  show ?thesis using a b c d e f g by simp
qed

text \<open>
  Claim C3. For every validated request, \<open>softCapExceeded\<close> holds exactly when the refund
  percent is present and strictly greater than the encouraged cap (a percent equal to the
  cap gives false), \<open>hardCapExceeded\<close> holds exactly when it is present and strictly
  greater than the maximum cap, and both flags are false when the percent is absent.
  For a finite percent, greater is the order of the reals; an infinite positive percent
  is greater than every cap.
\<close>

theorem cap_flags_strict:
  "(softCapExceeded rnd input \<longleftrightarrow>
      (\<exists>p. refundPercent rnd input = Some p \<and> js_greater p (encouragedRefundCapPercent input)))
   \<and> (hardCapExceeded rnd input \<longleftrightarrow>
      (\<exists>p. refundPercent rnd input = Some p \<and> js_greater p (maxRefundCapPercent input)))
   \<and> (\<forall>a. refundPercent rnd input = Some (Finite a) \<longrightarrow>
         (softCapExceeded rnd input \<longleftrightarrow> encouragedRefundCapPercent input < a)
         \<and> (hardCapExceeded rnd input \<longleftrightarrow> maxRefundCapPercent input < a))
   \<and> (refundPercent rnd input = Some (Finite (encouragedRefundCapPercent input))
        \<longrightarrow> \<not> softCapExceeded rnd input)
   \<and> (refundPercent rnd input = Some (Finite (maxRefundCapPercent input))
        \<longrightarrow> \<not> hardCapExceeded rnd input)
   \<and> (refundPercent rnd input = None
        \<longrightarrow> \<not> softCapExceeded rnd input \<and> \<not> hardCapExceeded rnd input)"
  by (cases "refundPercent rnd input")
     (simp_all add: softCapExceeded_def hardCapExceeded_def)

theorem cap_flags_strict_witness:
  "\<not> softCapExceeded example_rnd
        \<lparr>rawNotes = ''guest disputes the charge'', issueType = ''Refund'',
        bookingTotal = Some 100, refundedAmount = Some 15,
        encouragedRefundCapPercent = 15, maxRefundCapPercent = 20\<rparr>
   \<and> \<not> softCapExceeded example_rnd
        \<lparr>rawNotes = ''guest disputes the charge'', issueType = ''Refund'',
        bookingTotal = None, refundedAmount = Some 50,
        encouragedRefundCapPercent = 15, maxRefundCapPercent = 20\<rparr>
   \<and> \<not> hardCapExceeded example_rnd
        \<lparr>rawNotes = ''guest disputes the charge'', issueType = ''Refund'',
        bookingTotal = None, refundedAmount = Some 50,
        encouragedRefundCapPercent = 15, maxRefundCapPercent = 20\<rparr>
   \<and> softCapExceeded example_rnd
        \<lparr>rawNotes = ''guest disputes the charge'', issueType = ''Refund'',
        bookingTotal = Some 100, refundedAmount = Some 25,
        encouragedRefundCapPercent = 15, maxRefundCapPercent = 20\<rparr>
   \<and> hardCapExceeded example_rnd
        \<lparr>rawNotes = ''guest disputes the charge'', issueType = ''Refund'',
        bookingTotal = Some 100, refundedAmount = Some 25,
        encouragedRefundCapPercent = 15, maxRefundCapPercent = 20\<rparr>"
  using
    cap_flags_strict [of example_rnd
        "\<lparr>rawNotes = ''guest disputes the charge'', issueType = ''Refund'',
        bookingTotal = Some 100, refundedAmount = Some 15,
        encouragedRefundCapPercent = 15, maxRefundCapPercent = 20\<rparr>"]
    cap_flags_strict [of example_rnd
        "\<lparr>rawNotes = ''guest disputes the charge'', issueType = ''Refund'',
        bookingTotal = None, refundedAmount = Some 50,
        encouragedRefundCapPercent = 15, maxRefundCapPercent = 20\<rparr>"]
    cap_flags_strict [of example_rnd
        "\<lparr>rawNotes = ''guest disputes the charge'', issueType = ''Refund'',
        bookingTotal = Some 100, refundedAmount = Some 25,
        encouragedRefundCapPercent = 15, maxRefundCapPercent = 20\<rparr>"]
  by (simp add: refundPercent_def example_percent del: computeRefundPercent.simps)

section \<open>Properties of the result reconciler\<close>

lemma localPolicy_lookup:
  "fmlookup (localPolicy rnd input) k =
     (if k = ''encouraged_cap_percent'' then Some (JNum (encouragedRefundCapPercent input))
      else if k = ''max_cap_percent'' then Some (JNum (maxRefundCapPercent input))
      else if k = ''refund_percent'' then Some (num_or_null (refundPercent rnd input))
      else if k = ''soft_cap_exceeded'' then Some (JBool (softCapExceeded rnd input))
      else if k = ''hard_cap_exceeded'' then Some (JBool (hardCapExceeded rnd input))
      else None)"
  by (simp add: localPolicy_def)

lemma merged_policy:
  "fmlookup (merged rnd input data) ''policy'' =
     Some (JObj (localPolicy rnd input ++\<^sub>f spread (enginePolicy data)))"
  by (simp add: merged_def)

lemma merged_other:
  "k \<noteq> ''policy'' \<Longrightarrow> fmlookup (merged rnd input data) k = fmlookup (spread data) k"
  by (simp add: merged_def)

lemma enginePolicy_obj:
  "fmlookup d ''policy'' = Some (JObj p) \<Longrightarrow> enginePolicy (JObj d) = JObj p"
  by (simp add: enginePolicy_def opt_chain_def)

lemma policy_field:
  "opt_chain (fmlookup (merged rnd input data) ''policy'') (property k) =
     fmlookup (localPolicy rnd input ++\<^sub>f spread (enginePolicy data)) k"
  by (simp add: merged_policy opt_chain_def)

text \<open>
  Claim C1, amended. For every engine output that contains its own policy sub-object,
  every field of that sub-object, the five locally computed ones included
  (\<open>refund_percent\<close>, \<open>soft_cap_exceeded\<close>, \<open>hard_cap_exceeded\<close>, \<open>encouraged_cap_percent\<close>,
  \<open>max_cap_percent\<close>), is in the policy block of the reconciled result unchanged: the
  engine's value replaces the local one even when they disagree. A field the engine's
  policy does not supply has the locally computed value when it is one of the five, and is
  absent otherwise.
\<close>

theorem engine_policy_fields_win:
  "fmlookup d ''policy'' = Some (JObj p) \<Longrightarrow>
   (\<forall>k. opt_chain (fmlookup (merged rnd input (JObj d)) ''policy'') (property k) =
      (case fmlookup p k of
         Some v \<Rightarrow> Some v
       | None \<Rightarrow> fmlookup (localPolicy rnd input) k))
   \<and> fmlookup (localPolicy rnd input) ''refund_percent'' = Some (num_or_null (refundPercent rnd input))
   \<and> fmlookup (localPolicy rnd input) ''soft_cap_exceeded'' = Some (JBool (softCapExceeded rnd input))
   \<and> fmlookup (localPolicy rnd input) ''hard_cap_exceeded'' = Some (JBool (hardCapExceeded rnd input))
   \<and> fmlookup (localPolicy rnd input) ''encouraged_cap_percent''
        = Some (JNum (encouragedRefundCapPercent input))
   \<and> fmlookup (localPolicy rnd input) ''max_cap_percent'' = Some (JNum (maxRefundCapPercent input))
   \<and> (\<forall>k. k \<notin> {''refund_percent'', ''soft_cap_exceeded'', ''hard_cap_exceeded'',
               ''encouraged_cap_percent'', ''max_cap_percent''}
          \<longrightarrow> fmlookup (localPolicy rnd input) k = None)"
  by (simp add: policy_field enginePolicy_obj localPolicy_lookup fmlookup_dom_iff
      split: option.split)

theorem engine_policy_fields_win_witness:
  "opt_chain (fmlookup (merged example_rnd example_input (JObj (fmap_of_list
       [(''risk_score'', JNum 80),
        (''policy'', JObj (fmap_of_list
           [(''refund_percent'', JNum 99), (''reviewer'', JStr ''manager'')]))])))
     ''policy'') (property ''refund_percent'') = Some (JNum 99)
   \<and> opt_chain (fmlookup (merged example_rnd example_input (JObj (fmap_of_list
       [(''risk_score'', JNum 80),
        (''policy'', JObj (fmap_of_list
           [(''refund_percent'', JNum 99), (''reviewer'', JStr ''manager'')]))])))
     ''policy'') (property ''reviewer'') = Some (JStr ''manager'')
   \<and> opt_chain (fmlookup (merged example_rnd example_input (JObj (fmap_of_list
       [(''risk_score'', JNum 80),
        (''policy'', JObj (fmap_of_list
           [(''refund_percent'', JNum 99), (''reviewer'', JStr ''manager'')]))])))
     ''policy'') (property ''max_cap_percent'') = Some (JNum 20)"
proof -
  have h: "fmlookup (fmap_of_list
       [(''risk_score'', JNum 80),
        (''policy'', JObj (fmap_of_list
           [(''refund_percent'', JNum 99), (''reviewer'', JStr ''manager'')]))]) ''policy''
     = Some (JObj (fmap_of_list
           [(''refund_percent'', JNum 99), (''reviewer'', JStr ''manager'')]))"
    by simp
  show ?thesis
    using engine_policy_fields_win [OF h, where rnd = example_rnd and input = example_input]
    by (simp add: example_input_def)
qed

text \<open>
  Claim C1 as stated fails: with a booking total of 100 and a refund of 10 the local
  refund percent is 10, and an engine policy that says 99 is what the result carries.
\<close>

theorem local_policy_overwritten_counterexample:
  "opt_chain (fmlookup (merged example_rnd example_input (JObj (fmap_of_list
       [(''policy'', JObj (fmap_of_list [(''refund_percent'', JNum 99)]))])))
     ''policy'') (property ''refund_percent'')
   \<noteq> Some (num_or_null (refundPercent example_rnd example_input))"
  by (simp add: policy_field enginePolicy_obj localPolicy_lookup num_or_null_def
      stringify_number_def refundPercent_def example_input_def example_percent
      del: computeRefundPercent.simps)

text \<open>
  Claim C6. For every engine output, also one with no policy sub-object (or one that is
  not an object at all), the reconciled result has a policy object, and that object has
  the five policy fields.
\<close>

theorem merged_policy_present:
  "\<exists>q. fmlookup (merged rnd input data) ''policy'' = Some (JObj q)
       \<and> ''encouraged_cap_percent'' |\<in>| fmdom q
       \<and> ''max_cap_percent'' |\<in>| fmdom q
       \<and> ''refund_percent'' |\<in>| fmdom q
       \<and> ''soft_cap_exceeded'' |\<in>| fmdom q
       \<and> ''hard_cap_exceeded'' |\<in>| fmdom q"
  by (simp add: merged_policy localPolicy_def)

text \<open>
  Claim C4, amended. Every top-level field other than \<open>policy\<close> passes from the engine
  output to the result returned to the caller as it is; so an array-valued field
  (\<open>signals\<close>, \<open>warnings\<close>, \<open>recommended_script\<close>, \<open>next_steps\<close>, \<open>missing_info\<close>) that the
  engine output lacks is absent from the result too, and no empty sequence is put in its
  place.
\<close>

theorem missing_arrays_stay_missing:
  "(\<forall>k. k \<noteq> ''policy'' \<longrightarrow> fmlookup (merged rnd input data) k = fmlookup (spread data) k)
   \<and> (\<forall>d k. data = JObj d
         \<and> k \<in> {''signals'', ''warnings'', ''recommended_script'', ''next_steps'', ''missing_info''}
         \<and> fmlookup d k = None
        \<longrightarrow> fmlookup (merged rnd input data) k = None)"
  by (auto simp: merged_other)

theorem missing_arrays_stay_missing_witness:
  "fmlookup (merged example_rnd example_input (JObj (fmap_of_list
       [(''risk_score'', JNum 80), (''warnings'', JArr [JStr ''angry disconnect''])])))
     ''signals'' = None
   \<and> fmlookup (merged example_rnd example_input (JObj (fmap_of_list
       [(''risk_score'', JNum 80), (''warnings'', JArr [JStr ''angry disconnect''])])))
     ''warnings'' = Some (JArr [JStr ''angry disconnect''])"
  using missing_arrays_stay_missing [of example_rnd example_input "JObj (fmap_of_list
       [(''risk_score'', JNum 80), (''warnings'', JArr [JStr ''angry disconnect''])])"]
  by simp

text \<open>
  Claim C4 as stated fails: an engine output without \<open>signals\<close> gives a result whose
  \<open>signals\<close> field is not the empty sequence.
\<close>

theorem missing_array_not_normalised_counterexample:
  "fmlookup (merged example_rnd example_input (JObj (fmap_of_list [(''risk_score'', JNum 80)]))) ''signals''
   \<noteq> Some (JArr [])"
  by (simp add: merged_def)

section \<open>Properties of the reasoning engine client\<close>

lemma indexOf_ge: "- 1 \<le> indexOf c xs"
  by (induction xs) (auto simp: Let_def)

lemma indexOf_none_iff: "indexOf c xs = - 1 \<longleftrightarrow> c \<notin> set xs"
proof (induction xs)
  case Nil
  show ?case by simp
next
  case (Cons x xs)
  have "- 1 \<le> indexOf c xs" by (rule indexOf_ge)
  with Cons show ?case by (auto simp: Let_def)
qed

lemma indexOf_first: "c \<notin> set pre \<Longrightarrow> indexOf c (pre @ c # rest) = int (length pre)"
  by (induction pre) (auto simp: Let_def)

lemma lastIndexOf_none_iff: "lastIndexOf c xs = - 1 \<longleftrightarrow> c \<notin> set xs"
proof -
  have "indexOf c (rev xs) < int (length xs)" if "c \<in> set xs"
  proof -
    from that have "c \<in> set (rev xs)" by simp
    then obtain ys zs where "rev xs = ys @ c # zs" "c \<notin> set ys"
      by (meson split_list_first)
    then have "indexOf c (rev xs) = int (length ys)" "length (rev xs) = length ys + 1 + length zs"
      by (simp_all add: indexOf_first)
    then show ?thesis by simp
  qed
  then show ?thesis
    using indexOf_none_iff [of c "rev xs"] by (auto simp: lastIndexOf_def Let_def)
qed

lemma lastIndexOf_last: "c \<notin> set post \<Longrightarrow> lastIndexOf c (pre @ c # post) = int (length pre)"
proof -
  assume a: "c \<notin> set post"
  have "rev (pre @ c # post) = rev post @ c # rev pre" by simp
  moreover from a have "c \<notin> set (rev post)" by simp
  ultimately have "indexOf c (rev (pre @ c # post)) = int (length post)"
    by (simp add: indexOf_first del: rev_append rev.simps)
  then show ?thesis by (simp add: lastIndexOf_def)
qed

lemma slice_middle:
  "slice (pre @ mid @ post) (int (length pre)) (int (length pre) + int (length mid)) = mid"
  by (simp add: slice_def Let_def)

lemma brace_span:
  assumes "CHR ''{'' \<notin> set pre" "CHR ''}'' \<notin> set post"
  shows "brace_fallback e (JStr (pre @ CHR ''{'' # mid @ CHR ''}'' # post))
           = parse_value e (JStr (CHR ''{'' # mid @ ''}''))"
proof -
  let ?t = "pre @ CHR ''{'' # mid @ CHR ''}'' # post"
  have s: "indexOf (CHR ''{'') ?t = int (length pre)"
    using assms(1) by (rule indexOf_first)
  have "lastIndexOf (CHR ''}'') ((pre @ CHR ''{'' # mid) @ CHR ''}'' # post)
          = int (length (pre @ CHR ''{'' # mid))"
    using assms(2) by (rule lastIndexOf_last)
  then have l: "lastIndexOf (CHR ''}'') ?t = int (length pre) + 1 + int (length mid)"
    by simp
  have "slice (pre @ (CHR ''{'' # mid @ ''}'') @ post) (int (length pre))
          (int (length pre) + int (length (CHR ''{'' # mid @ ''}''))) = CHR ''{'' # mid @ ''}''"
    by (rule slice_middle)
  then have "slice ?t (int (length pre)) (int (length pre) + 1 + int (length mid) + 1)
          = CHR ''{'' # mid @ ''}''"
    by (simp add: add.commute add.left_commute)
  then have sl: "slice ?t (indexOf (CHR ''{'') ?t) (lastIndexOf (CHR ''}'') ?t + 1)
          = CHR ''{'' # mid @ ''}''"
    by (simp only: s l)
  have c1: "indexOf (CHR ''{'') ?t \<noteq> - 1" and c2: "lastIndexOf (CHR ''}'') ?t \<noteq> - 1"
    and c3: "\<not> lastIndexOf (CHR ''}'') ?t \<le> indexOf (CHR ''{'') ?t"
    by (simp_all only: s l)
  show ?thesis
    unfolding brace_fallback_def json.case Let_def
    by (simp only: c1 c2 c3 sl simp_thms if_False)
qed

lemma no_brace_pair:
  assumes "\<not> (\<exists>pre mid post. t = pre @ CHR ''{'' # mid @ CHR ''}'' # post
              \<and> CHR ''{'' \<notin> set pre \<and> CHR ''}'' \<notin> set post)"
  shows "brace_fallback e (JStr t) = Inl (Error ''Model did not return JSON'')"
proof -
  let ?start = "indexOf (CHR ''{'') t" and ?stop = "lastIndexOf (CHR ''}'') t"
  have "?start = - 1 \<or> ?stop = - 1 \<or> ?stop \<le> ?start"
  proof (rule ccontr)
    assume "\<not> ?thesis"
    then have a: "?start \<noteq> - 1" "?stop \<noteq> - 1" "?start < ?stop" by auto
    from a(1) have "CHR ''{'' \<in> set t" by (simp add: indexOf_none_iff)
    then obtain pre r where p: "t = pre @ CHR ''{'' # r" "CHR ''{'' \<notin> set pre"
      by (meson split_list_first)
    from a(2) have "CHR ''}'' \<in> set t" by (simp add: lastIndexOf_none_iff)
    then obtain u post where q: "t = u @ CHR ''}'' # post" "CHR ''}'' \<notin> set post"
      by (meson split_list_last)
    have "?start = int (length pre)" using p indexOf_first by fastforce
    moreover have "?stop = int (length u)" using q lastIndexOf_last by fastforce
    ultimately have len: "length pre < length u" using a(3) by simp
    from p(1) q(1) have "pre @ CHR ''{'' # r = u @ CHR ''}'' # post" by simp
    then obtain us where "pre = u @ us \<and> us @ CHR ''{'' # r = CHR ''}'' # post
        \<or> pre @ us = u \<and> CHR ''{'' # r = us @ CHR ''}'' # post"
      by (auto simp: append_eq_append_conv2)
    with len have us: "pre @ us = u" "CHR ''{'' # r = us @ CHR ''}'' # post" by auto
    from us(2) len us(1) obtain mid where "us = CHR ''{'' # mid"
      by (cases us) auto
    with us(1) q(1) have "t = pre @ CHR ''{'' # mid @ CHR ''}'' # post" by auto
    with assms p(2) q(2) show False by blast
  qed
  then show ?thesis by (auto simp: brace_fallback_def Let_def)
qed

lemma gemini_server_js_text:
  assumes "parse_value e (JStr raw) = Inr j" "modelText_of j = JStr t" "t \<noteq> []"
  shows "geminiGenerateJson_server_js e (Resolved True raw) =
           (case parse_value e (JStr t) of
              Inr v \<Rightarrow> Inr v
            | Inl _ \<Rightarrow> brace_fallback e (JStr t))"
  using assms by (simp add: geminiGenerateJson_server_js_def Let_def)

lemma gemini_part_001_text:
  assumes "parse_value e (JStr raw) = Inr j" "modelText_of j = JStr t" "t \<noteq> []"
  shows "geminiGenerateJson_part_001 e (Resolved True raw) = parse_value e (JStr t)"
  using assms by (simp add: geminiGenerateJson_part_001_def)

text \<open>
  Claim C5, amended. On transport success with a non-empty model text, the client of
  \<^verbatim>\<open>src/server/server.js\<close> first parses the whole text strictly; if that fails and the
  first \<^verbatim>\<open>{\<close> of the text comes before its last \<^verbatim>\<open>}\<close>, it parses the substring from the one
  to the other, and fails with the parser's error if that parse fails; if there is no
  such pair it fails with \<^verbatim>\<open>Model did not return JSON\<close>. The client of the server that
  builds the policy block (\<^verbatim>\<open>src/unnamed/part_001\<close>) parses the whole text strictly and
  nothing else: when that parse fails, it fails with the parser's error.
\<close>

theorem brace_fallback_in_server_js_only:
  assumes "parse_value e (JStr raw) = Inr j" and "modelText_of j = JStr t" and "t \<noteq> []"
  shows
    "(\<forall>v. JSON_parse e (JStr t) = Inr v
        \<longrightarrow> geminiGenerateJson_server_js e (Resolved True raw) = Inr v)
     \<and> (\<forall>m pre mid post.
          JSON_parse e (JStr t) = Inl m
          \<and> t = pre @ CHR ''{'' # mid @ CHR ''}'' # post
          \<and> CHR ''{'' \<notin> set pre \<and> CHR ''}'' \<notin> set post
        \<longrightarrow> geminiGenerateJson_server_js e (Resolved True raw) =
              (case JSON_parse e (JStr (CHR ''{'' # mid @ ''}'')) of
                 Inr v \<Rightarrow> Inr v
               | Inl m' \<Rightarrow> Inl (SyntaxError m')))
     \<and> (\<forall>m. JSON_parse e (JStr t) = Inl m
          \<and> \<not> (\<exists>pre mid post. t = pre @ CHR ''{'' # mid @ CHR ''}'' # post
                 \<and> CHR ''{'' \<notin> set pre \<and> CHR ''}'' \<notin> set post)
        \<longrightarrow> geminiGenerateJson_server_js e (Resolved True raw) =
              Inl (Error ''Model did not return JSON''))
     \<and> geminiGenerateJson_part_001 e (Resolved True raw) =
          (case JSON_parse e (JStr t) of
             Inr v \<Rightarrow> Inr v
           | Inl m \<Rightarrow> Inl (SyntaxError m))"
proof (intro conjI allI impI)
  fix v assume "JSON_parse e (JStr t) = Inr v"
  then show "geminiGenerateJson_server_js e (Resolved True raw) = Inr v"
    by (simp add: gemini_server_js_text [OF assms] parse_value_def)
next
  fix m pre mid post
  assume a: "JSON_parse e (JStr t) = Inl m
          \<and> t = pre @ CHR ''{'' # mid @ CHR ''}'' # post
          \<and> CHR ''{'' \<notin> set pre \<and> CHR ''}'' \<notin> set post"
  then have "brace_fallback e (JStr t) = parse_value e (JStr (CHR ''{'' # mid @ ''}''))"
    using brace_span [of pre post e mid] by simp
  moreover have "parse_value e (JStr t) = Inl (SyntaxError m)"
    using conjunct1 [OF a] by (simp add: parse_value_def)
  ultimately show "geminiGenerateJson_server_js e (Resolved True raw) =
              (case JSON_parse e (JStr (CHR ''{'' # mid @ ''}'')) of
                 Inr v \<Rightarrow> Inr v
               | Inl m' \<Rightarrow> Inl (SyntaxError m'))"
    by (simp add: gemini_server_js_text [OF assms] parse_value_def split: sum.split)
next
  fix m
  assume a: "JSON_parse e (JStr t) = Inl m
          \<and> \<not> (\<exists>pre mid post. t = pre @ CHR ''{'' # mid @ CHR ''}'' # post
                 \<and> CHR ''{'' \<notin> set pre \<and> CHR ''}'' \<notin> set post)"
  then have "brace_fallback e (JStr t) = Inl (Error ''Model did not return JSON'')"
    using no_brace_pair [of t e] by simp
  moreover have "parse_value e (JStr t) = Inl (SyntaxError m)"
    using conjunct1 [OF a] by (simp add: parse_value_def)
  ultimately show "geminiGenerateJson_server_js e (Resolved True raw) =
              Inl (Error ''Model did not return JSON'')"
    by (simp add: gemini_server_js_text [OF assms])
next
  show "geminiGenerateJson_part_001 e (Resolved True raw) =
          (case JSON_parse e (JStr t) of
             Inr v \<Rightarrow> Inr v
           | Inl m \<Rightarrow> Inl (SyntaxError m))"
    by (simp add: gemini_part_001_text [OF assms] parse_value_def split: sum.split)
qed

lemma example_raw_distinct:
  "example_raw \<noteq> example_raw_strict" "example_raw \<noteq> example_raw_prose"
  "example_raw \<noteq> example_raw_empty" "example_raw_strict \<noteq> example_raw_prose"
  "example_raw_strict \<noteq> example_raw_empty" "example_raw_prose \<noteq> example_raw_empty"
  "example_raw \<noteq> ''{}''" "example_raw_strict \<noteq> ''{}''" "example_raw_prose \<noteq> ''{}''"
  "example_raw_empty \<noteq> ''{}''"
  by (simp_all add: example_raw_def example_raw_strict_def example_raw_prose_def
      example_raw_empty_def)

lemma example_parse_raw:
  "parse_value example_env (JStr example_raw) = Inr (example_candidates ''Sure: {}'')"
  "parse_value example_env (JStr example_raw_strict) = Inr (example_candidates ''{}'')"
  "parse_value example_env (JStr example_raw_prose) = Inr (example_candidates ''no json here'')"
  "parse_value example_env (JStr example_raw_empty)
     = Inr (JObj (fmap_of_list [(''candidates'', JArr [])]))"
  by (simp_all add: parse_value_def example_env_def example_JSON_parse_def
      example_raw_distinct example_raw_distinct [symmetric])

lemma example_parse_text:
  "JSON_parse example_env (JStr ''{}'') = Inr (JObj fmempty)"
  "JSON_parse example_env (JStr ''Sure: {}'') = Inl ''Unexpected token''"
  "JSON_parse example_env (JStr ''no json here'') = Inl ''Unexpected token''"
  by (simp_all add: example_env_def example_JSON_parse_def example_raw_def
      example_raw_strict_def example_raw_prose_def example_raw_empty_def)

lemma modelText_of_example: "modelText_of (example_candidates t) = JStr t"
  by (simp add: modelText_of_def example_candidates_def opt_chain_def)

lemma no_brace_in_prose:
  "\<not> (\<exists>pre mid post. ''no json here'' = pre @ CHR ''{'' # mid @ CHR ''}'' # post)"
proof
  assume "\<exists>pre mid post. ''no json here'' = pre @ CHR ''{'' # mid @ CHR ''}'' # post"
  then obtain pre mid post where eq: "pre @ CHR ''{'' # mid @ CHR ''}'' # post = ''no json here''"
    by metis
  have "CHR ''{'' \<in> set (pre @ CHR ''{'' # mid @ CHR ''}'' # post)" by simp
  then have "CHR ''{'' \<in> set ''no json here''" by (simp only: eq)
  then show False by simp
qed

theorem brace_fallback_in_server_js_only_witness:
  "geminiGenerateJson_server_js example_env (Resolved True example_raw_strict) = Inr (JObj fmempty)
   \<and> geminiGenerateJson_server_js example_env (Resolved True example_raw) = Inr (JObj fmempty)
   \<and> geminiGenerateJson_server_js example_env (Resolved True example_raw_prose)
       = Inl (Error ''Model did not return JSON'')
   \<and> geminiGenerateJson_part_001 example_env (Resolved True example_raw)
       = Inl (SyntaxError ''Unexpected token'')"
proof -
  have ne: "''{}'' \<noteq> []" "''Sure: {}'' \<noteq> []" "''no json here'' \<noteq> []" by simp_all
  note strict = brace_fallback_in_server_js_only
        [OF example_parse_raw(2) modelText_of_example ne(1)]
  note wrapped = brace_fallback_in_server_js_only
        [OF example_parse_raw(1) modelText_of_example ne(2)]
  note prose = brace_fallback_in_server_js_only
        [OF example_parse_raw(3) modelText_of_example ne(3)]
  have a: "geminiGenerateJson_server_js example_env (Resolved True example_raw_strict)
      = Inr (JObj fmempty)"
    using strict [THEN conjunct1, rule_format, of "JObj fmempty"]
    by (simp add: example_parse_text)
  have "geminiGenerateJson_server_js example_env (Resolved True example_raw)
      = (case JSON_parse example_env (JStr (CHR ''{'' # [] @ ''}'')) of
           Inr v \<Rightarrow> Inr v
         | Inl m' \<Rightarrow> Inl (SyntaxError m'))"
    using wrapped [THEN conjunct2, THEN conjunct1, rule_format,
        of "''Unexpected token''" "''Sure: ''" "[]" "[]"]
    by (simp add: example_parse_text)
  then have b: "geminiGenerateJson_server_js example_env (Resolved True example_raw)
      = Inr (JObj fmempty)"
    by (simp add: example_parse_text)
  have nb: "\<not> (\<exists>pre mid post. ''no json here'' = pre @ CHR ''{'' # mid @ CHR ''}'' # post
              \<and> CHR ''{'' \<notin> set pre \<and> CHR ''}'' \<notin> set post)"
    using no_brace_in_prose by blast
  have c: "geminiGenerateJson_server_js example_env (Resolved True example_raw_prose)
      = Inl (Error ''Model did not return JSON'')"
    using prose [THEN conjunct2, THEN conjunct2, THEN conjunct1, rule_format,
        of "''Unexpected token''"] nb
    by (simp only: example_parse_text simp_thms)
  have d: "geminiGenerateJson_part_001 example_env (Resolved True example_raw)
      = Inl (SyntaxError ''Unexpected token'')"
    using wrapped [THEN conjunct2, THEN conjunct2, THEN conjunct2]
    by (simp add: example_parse_text)
  show ?thesis using a b c d by simp
qed

text \<open>
  Claim C5 as stated fails for the client of \<^verbatim>\<open>src/unnamed/part_001\<close>: for the model text
  \<^verbatim>\<open>Sure: {}\<close> the substring from the first \<^verbatim>\<open>{\<close> to the last \<^verbatim>\<open>}\<close> parses to the empty
  object, and the client does not return it.
\<close>

theorem strict_parse_only_counterexample:
  "geminiGenerateJson_part_001 example_env (Resolved True example_raw)
     \<noteq> parse_value example_env (JStr (slice ''Sure: {}''
           (indexOf (CHR ''{'') ''Sure: {}'') (lastIndexOf (CHR ''}'') ''Sure: {}'' + 1)))
   \<and> parse_value example_env (JStr (slice ''Sure: {}''
           (indexOf (CHR ''{'') ''Sure: {}'') (lastIndexOf (CHR ''}'') ''Sure: {}'' + 1)))
       = Inr (JObj fmempty)"
proof -
  have "geminiGenerateJson_part_001 example_env (Resolved True example_raw)
      = parse_value example_env (JStr ''Sure: {}'')"
    by (rule gemini_part_001_text [OF example_parse_raw(1) modelText_of_example]) simp
  then have a: "geminiGenerateJson_part_001 example_env (Resolved True example_raw)
      = Inl (SyntaxError ''Unexpected token'')"
    by (simp add: parse_value_def example_parse_text)
  have "slice ''Sure: {}''
           (indexOf (CHR ''{'') ''Sure: {}'') (lastIndexOf (CHR ''}'') ''Sure: {}'' + 1) = ''{}''"
    by (simp add: slice_def lastIndexOf_def Let_def)
  then have b: "parse_value example_env (JStr (slice ''Sure: {}''
           (indexOf (CHR ''{'') ''Sure: {}'') (lastIndexOf (CHR ''}'') ''Sure: {}'' + 1)))
       = Inr (JObj fmempty)"
    by (simp add: parse_value_def example_parse_text)
  show ?thesis using a b by simp
qed

section \<open>Properties of the analysis endpoint\<close>

lemma AnalyzeSchema_short_notes:
  "fmlookup m ''rawNotes'' = Some (JStr s) \<Longrightarrow> length s < 10 \<Longrightarrow>
   \<exists>issues. AnalyzeSchema_parse (Some (JObj m)) = Inl issues"
  by (simp add: AnalyzeSchema_parse_def zString_def Let_def)

lemma AnalyzeSchema_empty_issueType:
  "fmlookup m ''issueType'' = Some (JStr []) \<Longrightarrow>
   \<exists>issues. AnalyzeSchema_parse (Some (JObj m)) = Inl issues"
  by (simp add: AnalyzeSchema_parse_def zString_def Let_def split: sum.split)

lemma AnalyzeSchema_fields:
  assumes "AnalyzeSchema_parse (Some (JObj m)) = Inr input"
  shows "zString 10 ''rawNotes'' (fmlookup m ''rawNotes'') = Inr (rawNotes input)"
    and "zString 1 ''issueType'' (fmlookup m ''issueType'') = Inr (issueType input)"
    and "zNumberNullableOptional ''bookingTotal'' (fmlookup m ''bookingTotal'')
           = Inr (bookingTotal input)"
    and "zNumberNullableOptional ''refundedAmount'' (fmlookup m ''refundedAmount'')
           = Inr (refundedAmount input)"
    and "zNumberDefault 15 ''encouragedRefundCapPercent''
           (fmlookup m ''encouragedRefundCapPercent'') = Inr (encouragedRefundCapPercent input)"
    and "zNumberDefault 20 ''maxRefundCapPercent'' (fmlookup m ''maxRefundCapPercent'')
           = Inr (maxRefundCapPercent input)"
  using assms
  by (auto simp: AnalyzeSchema_parse_def Let_def split: sum.splits)

lemma api_analyze_invalid:
  "AnalyzeSchema_parse body = Inl issues \<Longrightarrow>
   api_analyze rnd e engine body =
     (Response 400 (JObj (fmap_of_list [(''error'', JStr (ZodError_message e issues))])), [])"
  by (simp add: api_analyze_def error_response_def)

lemma api_analyze_server_js_invalid:
  "AnalyzeSchema_parse body = Inl issues \<Longrightarrow>
   api_analyze_server_js e engine body =
     (Response 400 (JObj (fmap_of_list [(''error'', JStr (ZodError_message e issues))])), [])"
  by (simp add: api_analyze_server_js_def error_response_def)

lemma AnalyzeSchema_parse_ok:
  assumes "zString 10 ''rawNotes'' (fmlookup m ''rawNotes'') = Inr n"
    and "zString 1 ''issueType'' (fmlookup m ''issueType'') = Inr i"
    and "zNumberNullableOptional ''bookingTotal'' (fmlookup m ''bookingTotal'') = Inr b"
    and "zNumberNullableOptional ''refundedAmount'' (fmlookup m ''refundedAmount'') = Inr r"
    and "zNumberDefault 15 ''encouragedRefundCapPercent''
           (fmlookup m ''encouragedRefundCapPercent'') = Inr c"
    and "zNumberDefault 20 ''maxRefundCapPercent'' (fmlookup m ''maxRefundCapPercent'') = Inr x"
  shows "AnalyzeSchema_parse (Some (JObj m)) =
           Inr \<lparr>rawNotes = n, issueType = i, bookingTotal = b, refundedAmount = r,
                encouragedRefundCapPercent = c, maxRefundCapPercent = x\<rparr>"
  using assms by (simp add: AnalyzeSchema_parse_def Let_def)

lemma api_analyze_log:
  "AnalyzeSchema_parse body = Inr input \<Longrightarrow> snd (api_analyze rnd e engine body) = [input]"
  by (simp add: api_analyze_def split: sum.split)

lemma valid_body_accepted:
  assumes "fmlookup m ''rawNotes'' = Some (JStr n)" and "10 \<le> length n"
    and "fmlookup m ''issueType'' = Some (JStr i)" and "i \<noteq> []"
    and "fmlookup m ''bookingTotal'' = None \<or> fmlookup m ''bookingTotal'' = Some JNull
           \<or> (\<exists>x. fmlookup m ''bookingTotal'' = Some (JNum x))"
    and "fmlookup m ''refundedAmount'' = None \<or> fmlookup m ''refundedAmount'' = Some JNull
           \<or> (\<exists>x. fmlookup m ''refundedAmount'' = Some (JNum x))"
    and "fmlookup m ''encouragedRefundCapPercent'' = None
           \<or> (\<exists>c. fmlookup m ''encouragedRefundCapPercent'' = Some (JNum c))"
    and "fmlookup m ''maxRefundCapPercent'' = None
           \<or> (\<exists>c. fmlookup m ''maxRefundCapPercent'' = Some (JNum c))"
  shows "AnalyzeSchema_parse (Some (JObj m)) =
           Inr \<lparr>rawNotes = n, issueType = i,
                bookingTotal = (case fmlookup m ''bookingTotal'' of
                                  Some (JNum x) \<Rightarrow> Some x | _ \<Rightarrow> None),
                refundedAmount = (case fmlookup m ''refundedAmount'' of
                                  Some (JNum x) \<Rightarrow> Some x | _ \<Rightarrow> None),
                encouragedRefundCapPercent =
                  (case fmlookup m ''encouragedRefundCapPercent'' of
                     Some (JNum c) \<Rightarrow> c | _ \<Rightarrow> 15),
                maxRefundCapPercent =
                  (case fmlookup m ''maxRefundCapPercent'' of
                     Some (JNum c) \<Rightarrow> c | _ \<Rightarrow> 20)\<rparr>"
proof (rule AnalyzeSchema_parse_ok)
  show "zString 10 ''rawNotes'' (fmlookup m ''rawNotes'') = Inr n"
    using assms(1,2) by (simp add: zString_def)
  show "zString 1 ''issueType'' (fmlookup m ''issueType'') = Inr i"
    using assms(3,4) by (simp add: zString_def)
  show "zNumberNullableOptional ''bookingTotal'' (fmlookup m ''bookingTotal'')
      = Inr (case fmlookup m ''bookingTotal'' of Some (JNum x) \<Rightarrow> Some x | _ \<Rightarrow> None)"
    using assms(5) by (auto simp: zNumberNullableOptional_def)
  show "zNumberNullableOptional ''refundedAmount'' (fmlookup m ''refundedAmount'')
      = Inr (case fmlookup m ''refundedAmount'' of Some (JNum x) \<Rightarrow> Some x | _ \<Rightarrow> None)"
    using assms(6) by (auto simp: zNumberNullableOptional_def)
  show "zNumberDefault 15 ''encouragedRefundCapPercent''
      (fmlookup m ''encouragedRefundCapPercent'')
      = Inr (case fmlookup m ''encouragedRefundCapPercent'' of
               Some (JNum c) \<Rightarrow> c | _ \<Rightarrow> 15)"
    using assms(7) by (auto simp: zNumberDefault_def)
  show "zNumberDefault 20 ''maxRefundCapPercent'' (fmlookup m ''maxRefundCapPercent'')
      = Inr (case fmlookup m ''maxRefundCapPercent'' of Some (JNum c) \<Rightarrow> c | _ \<Rightarrow> 20)"
    using assms(8) by (auto simp: zNumberDefault_def)
qed

text \<open>
  Claim C7. A request whose \<open>rawNotes\<close> has fewer than 10 code units, or whose \<open>issueType\<close>
  is empty, is answered with status 400 and an error message, and the engine is not
  invoked for it (in either server file). A request with notes of 10 or more code units,
  a non-empty issue type, amounts that are numbers, \<^verbatim>\<open>null\<close> or absent, and caps that are
  numbers or absent is accepted, and the engine is invoked for it: an absent
  \<open>encouragedRefundCapPercent\<close> is filled in with 15 and an absent \<open>maxRefundCapPercent\<close>
  with 20, a cap that is given is kept. And no validated request whose body has no
  encouraged cap has another encouraged cap than 15, nor one without a maximum cap
  another than 20.
\<close>

theorem invalid_request_never_reaches_engine:
  "(((\<exists>s. fmlookup m ''rawNotes'' = Some (JStr s) \<and> length s < 10)
       \<or> fmlookup m ''issueType'' = Some (JStr []))
      \<longrightarrow> (\<exists>msg. api_analyze rnd e engine (Some (JObj m)) =
                  (Response 400 (JObj (fmap_of_list [(''error'', JStr msg)])), [])
               \<and> api_analyze_server_js e engine (Some (JObj m)) =
                  (Response 400 (JObj (fmap_of_list [(''error'', JStr msg)])), [])))
   \<and> (\<forall>input. AnalyzeSchema_parse (Some (JObj m)) = Inr input \<longrightarrow>
         (fmlookup m ''encouragedRefundCapPercent'' = None
            \<longrightarrow> encouragedRefundCapPercent input = 15)
         \<and> (fmlookup m ''maxRefundCapPercent'' = None
            \<longrightarrow> maxRefundCapPercent input = 20))
   \<and> (\<forall>n i. fmlookup m ''rawNotes'' = Some (JStr n) \<and> 10 \<le> length n
         \<and> fmlookup m ''issueType'' = Some (JStr i) \<and> i \<noteq> []
         \<and> (fmlookup m ''bookingTotal'' = None \<or> fmlookup m ''bookingTotal'' = Some JNull
              \<or> (\<exists>x. fmlookup m ''bookingTotal'' = Some (JNum x)))
         \<and> (fmlookup m ''refundedAmount'' = None \<or> fmlookup m ''refundedAmount'' = Some JNull
              \<or> (\<exists>x. fmlookup m ''refundedAmount'' = Some (JNum x)))
         \<and> (fmlookup m ''encouragedRefundCapPercent'' = None
              \<or> (\<exists>c. fmlookup m ''encouragedRefundCapPercent'' = Some (JNum c)))
         \<and> (fmlookup m ''maxRefundCapPercent'' = None
              \<or> (\<exists>c. fmlookup m ''maxRefundCapPercent'' = Some (JNum c)))
        \<longrightarrow> (\<exists>input. AnalyzeSchema_parse (Some (JObj m)) = Inr input
               \<and> rawNotes input = n \<and> issueType input = i
               \<and> encouragedRefundCapPercent input =
                   (case fmlookup m ''encouragedRefundCapPercent'' of
                      Some (JNum c) \<Rightarrow> c | _ \<Rightarrow> 15)
               \<and> maxRefundCapPercent input =
                   (case fmlookup m ''maxRefundCapPercent'' of
                      Some (JNum c) \<Rightarrow> c | _ \<Rightarrow> 20)
               \<and> snd (api_analyze rnd e engine (Some (JObj m))) = [input]))"
proof (intro conjI impI allI)
  assume "(\<exists>s. fmlookup m ''rawNotes'' = Some (JStr s) \<and> length s < 10)
       \<or> fmlookup m ''issueType'' = Some (JStr [])"
  then obtain issues where "AnalyzeSchema_parse (Some (JObj m)) = Inl issues"
    using AnalyzeSchema_short_notes AnalyzeSchema_empty_issueType by blast
  then show "\<exists>msg. api_analyze rnd e engine (Some (JObj m)) =
                  (Response 400 (JObj (fmap_of_list [(''error'', JStr msg)])), [])
               \<and> api_analyze_server_js e engine (Some (JObj m)) =
                  (Response 400 (JObj (fmap_of_list [(''error'', JStr msg)])), [])"
    using api_analyze_invalid api_analyze_server_js_invalid by blast
next
  fix input
  assume p: "AnalyzeSchema_parse (Some (JObj m)) = Inr input"
    and "fmlookup m ''encouragedRefundCapPercent'' = None"
  then show "encouragedRefundCapPercent input = 15"
    using AnalyzeSchema_fields(5) [OF p] by (simp add: zNumberDefault_def)
next
  fix input
  assume p: "AnalyzeSchema_parse (Some (JObj m)) = Inr input"
    and "fmlookup m ''maxRefundCapPercent'' = None"
  then show "maxRefundCapPercent input = 20"
    using AnalyzeSchema_fields(6) [OF p] by (simp add: zNumberDefault_def)
next
  fix n i
  assume a: "fmlookup m ''rawNotes'' = Some (JStr n) \<and> 10 \<le> length n
         \<and> fmlookup m ''issueType'' = Some (JStr i) \<and> i \<noteq> []
         \<and> (fmlookup m ''bookingTotal'' = None \<or> fmlookup m ''bookingTotal'' = Some JNull
              \<or> (\<exists>x. fmlookup m ''bookingTotal'' = Some (JNum x)))
         \<and> (fmlookup m ''refundedAmount'' = None \<or> fmlookup m ''refundedAmount'' = Some JNull
              \<or> (\<exists>x. fmlookup m ''refundedAmount'' = Some (JNum x)))
         \<and> (fmlookup m ''encouragedRefundCapPercent'' = None
              \<or> (\<exists>c. fmlookup m ''encouragedRefundCapPercent'' = Some (JNum c)))
         \<and> (fmlookup m ''maxRefundCapPercent'' = None
              \<or> (\<exists>c. fmlookup m ''maxRefundCapPercent'' = Some (JNum c)))"
  let ?input = "\<lparr>rawNotes = n, issueType = i,
                bookingTotal = (case fmlookup m ''bookingTotal'' of
                                  Some (JNum x) \<Rightarrow> Some x | _ \<Rightarrow> None),
                refundedAmount = (case fmlookup m ''refundedAmount'' of
                                  Some (JNum x) \<Rightarrow> Some x | _ \<Rightarrow> None),
                encouragedRefundCapPercent =
                  (case fmlookup m ''encouragedRefundCapPercent'' of
                     Some (JNum c) \<Rightarrow> c | _ \<Rightarrow> 15),
                maxRefundCapPercent =
                  (case fmlookup m ''maxRefundCapPercent'' of
                     Some (JNum c) \<Rightarrow> c | _ \<Rightarrow> 20)\<rparr>"
  have p: "AnalyzeSchema_parse (Some (JObj m)) = Inr ?input"
    by (rule valid_body_accepted) (use a in blast)+
  have l: "snd (api_analyze rnd e engine (Some (JObj m))) = [?input]"
    by (rule api_analyze_log [OF p])
  show "\<exists>input. AnalyzeSchema_parse (Some (JObj m)) = Inr input
               \<and> rawNotes input = n \<and> issueType input = i
               \<and> encouragedRefundCapPercent input =
                   (case fmlookup m ''encouragedRefundCapPercent'' of
                      Some (JNum c) \<Rightarrow> c | _ \<Rightarrow> 15)
               \<and> maxRefundCapPercent input =
                   (case fmlookup m ''maxRefundCapPercent'' of
                      Some (JNum c) \<Rightarrow> c | _ \<Rightarrow> 20)
               \<and> snd (api_analyze rnd e engine (Some (JObj m))) = [input]"
    by (rule exI [of _ ?input]) (simp add: p l)
qed

lemma example_body_valid: "AnalyzeSchema_parse (Some example_body) = Inr example_input"
  by (simp add: AnalyzeSchema_parse_def example_body_def example_input_def zString_def
      zNumberNullableOptional_def zNumberDefault_def issues_of_def Let_def)

theorem invalid_request_never_reaches_engine_witness:
  "(\<exists>msg. api_analyze example_rnd example_env
            (example_engine (Resolved True example_raw_strict)) (Some example_short_body)
          = (Response 400 (JObj (fmap_of_list [(''error'', JStr msg)])), []))
   \<and> (\<exists>input. AnalyzeSchema_parse (Some example_body) = Inr input
         \<and> encouragedRefundCapPercent input = 15 \<and> maxRefundCapPercent input = 20
         \<and> snd (api_analyze example_rnd example_env
                  (example_engine (Resolved True example_raw_strict)) (Some example_body))
             = [input])"
proof -
  note short = invalid_request_never_reaches_engine
    [where m = "fmap_of_list [(''rawNotes'', JStr ''short''), (''issueType'', JStr ''Refund'')]"
       and rnd = example_rnd and e = example_env
       and engine = "example_engine (Resolved True example_raw_strict)"]
  note caps = invalid_request_never_reaches_engine
    [where m = "fmap_of_list
     [(''rawNotes'', JStr ''guest disputes the charge''),
      (''issueType'', JStr ''Refund''),
      (''bookingTotal'', JNum 100),
      (''refundedAmount'', JNum 10)]"
       and rnd = example_rnd and e = example_env
       and engine = "example_engine (Resolved True example_raw_strict)",
     THEN conjunct2, THEN conjunct2, rule_format,
     of "''guest disputes the charge''" "''Refund''"]
  have a: "\<exists>msg. api_analyze example_rnd example_env
            (example_engine (Resolved True example_raw_strict)) (Some example_short_body)
          = (Response 400 (JObj (fmap_of_list [(''error'', JStr msg)])), [])"
    using short [THEN conjunct1] unfolding example_short_body_def by auto
  have b: "\<exists>input. AnalyzeSchema_parse (Some example_body) = Inr input
         \<and> encouragedRefundCapPercent input = 15 \<and> maxRefundCapPercent input = 20
         \<and> snd (api_analyze example_rnd example_env
                  (example_engine (Resolved True example_raw_strict)) (Some example_body))
             = [input]"
  proof -
    have "\<exists>input. AnalyzeSchema_parse (Some (JObj (fmap_of_list
     [(''rawNotes'', JStr ''guest disputes the charge''),
      (''issueType'', JStr ''Refund''),
      (''bookingTotal'', JNum 100),
      (''refundedAmount'', JNum 10)]))) = Inr input
         \<and> rawNotes input = ''guest disputes the charge'' \<and> issueType input = ''Refund''
         \<and> encouragedRefundCapPercent input = 15 \<and> maxRefundCapPercent input = 20
         \<and> snd (api_analyze example_rnd example_env
                  (example_engine (Resolved True example_raw_strict))
                  (Some (JObj (fmap_of_list
     [(''rawNotes'', JStr ''guest disputes the charge''),
      (''issueType'', JStr ''Refund''),
      (''bookingTotal'', JNum 100),
      (''refundedAmount'', JNum 10)])))) = [input]"
      using caps by simp
    then show ?thesis unfolding example_body_def by blast
  qed
  show ?thesis using a b by simp
qed

lemma gemini_part_001_stages:
  "geminiGenerateJson_part_001 e (Rejected m) = Inl (TypeError m)"
  "geminiGenerateJson_part_001 e (Resolved False raw) = Inl (Error raw)"
  "JSON_parse e (JStr raw) = Inl m \<Longrightarrow>
     geminiGenerateJson_part_001 e (Resolved True raw) = Inl (SyntaxError m)"
  "JSON_parse e (JStr raw) = Inr j \<Longrightarrow> \<not> truthy (modelText_of j) \<Longrightarrow>
     geminiGenerateJson_part_001 e (Resolved True raw) = Inl (Error ''No model text returned'')"
  "JSON_parse e (JStr raw) = Inr j \<Longrightarrow> truthy (modelText_of j) \<Longrightarrow>
     JSON_parse e (modelText_of j) = Inl m \<Longrightarrow>
     geminiGenerateJson_part_001 e (Resolved True raw) = Inl (SyntaxError m)"
  by (simp_all add: geminiGenerateJson_part_001_def parse_value_def Let_def)

lemma api_analyze_engine_failed:
  "AnalyzeSchema_parse body = Inr input \<Longrightarrow>
   geminiGenerateJson_part_001 e (engine input) = Inl err \<Longrightarrow>
   api_analyze rnd e engine body =
     (Response 400 (JObj (fmap_of_list [(''error'', JStr (message e err))])), [input])"
  by (simp add: api_analyze_def error_response_def)

lemma api_analyze_ok:
  "AnalyzeSchema_parse body = Inr input \<Longrightarrow>
   geminiGenerateJson_part_001 e (engine input) = Inr data \<Longrightarrow>
   api_analyze rnd e engine body = (Response 200 (JObj (merged rnd input data)), [input])"
  by (simp add: api_analyze_def)

lemma api_analyze_cases:
  "(\<exists>input data. AnalyzeSchema_parse body = Inr input
       \<and> geminiGenerateJson_part_001 e (engine input) = Inr data
       \<and> fst (api_analyze rnd e engine body) = Response 200 (JObj (merged rnd input data)))
   \<or> (\<exists>msg. fst (api_analyze rnd e engine body)
         = Response 400 (JObj (fmap_of_list [(''error'', JStr msg)])))"
proof (cases "AnalyzeSchema_parse body")
  case (Inl issues)
  have "fst (api_analyze rnd e engine body)
      = Response 400 (JObj (fmap_of_list [(''error'', JStr (ZodError_message e issues))]))"
    by (simp only: api_analyze_invalid [OF Inl] fst_conv)
  then show ?thesis by blast
next
  case (Inr input)
  show ?thesis
  proof (cases "geminiGenerateJson_part_001 e (engine input)")
    case (Inl err)
    have "fst (api_analyze rnd e engine body)
        = Response 400 (JObj (fmap_of_list [(''error'', JStr (message e err))]))"
      by (simp only: api_analyze_engine_failed [where engine = engine, OF Inr Inl] fst_conv)
    then show ?thesis by blast
  next
    case r: (Inr data)
    have "fst (api_analyze rnd e engine body) = Response 200 (JObj (merged rnd input data))"
      by (simp only: api_analyze_ok [where engine = engine, OF Inr r] fst_conv)
    with Inr r show ?thesis by blast
  qed
qed

lemma api_analyze_server_js_cases:
  "(\<exists>data. fst (api_analyze_server_js e engine body) = Response 200 data)
   \<or> (\<exists>msg. fst (api_analyze_server_js e engine body)
         = Response 400 (JObj (fmap_of_list [(''error'', JStr msg)])))"
proof (cases "AnalyzeSchema_parse body")
  case (Inl issues)
  have "fst (api_analyze_server_js e engine body)
      = Response 400 (JObj (fmap_of_list [(''error'', JStr (ZodError_message e issues))]))"
    by (simp only: api_analyze_server_js_invalid [OF Inl] fst_conv)
  then show ?thesis by blast
next
  case (Inr input)
  then show ?thesis
    by (cases "geminiGenerateJson_server_js e (engine input)")
       (auto simp: api_analyze_server_js_def error_response_def)
qed

text \<open>
  Claim C8. Whatever fails in the handler, the answer has status 400 and a body that is
  an object with the one field \<open>error\<close>, a text: the message of the validation error, or
  the message of what the engine client threw, which is the raw body on a transport
  failure, \<^verbatim>\<open>No model text returned\<close> on an empty output and the parser's message on a
  malformed one. An answer with status 200 is given only when validation and the engine
  client both succeeded, and is then the whole reconciled result; there is no other
  answer. The failure answer of the handler in \<^verbatim>\<open>src/server/server.js\<close> is the same.
\<close>

theorem failure_answers_single_error_field:
  "(\<forall>issues. AnalyzeSchema_parse body = Inl issues \<longrightarrow>
       fst (api_analyze rnd e engine body)
         = Response 400 (JObj (fmupd ''error'' (JStr (ZodError_message e issues)) fmempty)))
   \<and> (\<forall>input err. AnalyzeSchema_parse body = Inr input
          \<and> geminiGenerateJson_part_001 e (engine input) = Inl err \<longrightarrow>
       fst (api_analyze rnd e engine body)
         = Response 400 (JObj (fmupd ''error'' (JStr (message e err)) fmempty)))
   \<and> (\<forall>raw. geminiGenerateJson_part_001 e (Resolved False raw) = Inl (Error raw))
   \<and> (\<forall>raw j. JSON_parse e (JStr raw) = Inr j \<and> \<not> truthy (modelText_of j) \<longrightarrow>
       geminiGenerateJson_part_001 e (Resolved True raw) = Inl (Error ''No model text returned''))
   \<and> (\<forall>raw j m. JSON_parse e (JStr raw) = Inr j \<and> truthy (modelText_of j)
          \<and> JSON_parse e (modelText_of j) = Inl m \<longrightarrow>
       geminiGenerateJson_part_001 e (Resolved True raw) = Inl (SyntaxError m))
   \<and> (status (fst (api_analyze rnd e engine body)) = 200 \<longrightarrow>
        (\<exists>input data. AnalyzeSchema_parse body = Inr input
           \<and> geminiGenerateJson_part_001 e (engine input) = Inr data
           \<and> fst (api_analyze rnd e engine body) = Response 200 (JObj (merged rnd input data))))
   \<and> (status (fst (api_analyze rnd e engine body)) \<noteq> 200 \<longrightarrow>
        status (fst (api_analyze rnd e engine body)) = 400
        \<and> (\<exists>b msg. body_of (fst (api_analyze rnd e engine body)) = JObj b
              \<and> fmdom b = {|''error''|} \<and> fmlookup b ''error'' = Some (JStr msg)))
   \<and> (status (fst (api_analyze_server_js e engine body)) \<noteq> 200 \<longrightarrow>
        status (fst (api_analyze_server_js e engine body)) = 400
        \<and> (\<exists>b msg. body_of (fst (api_analyze_server_js e engine body)) = JObj b
              \<and> fmdom b = {|''error''|} \<and> fmlookup b ''error'' = Some (JStr msg)))"
proof (intro conjI allI impI)
  fix issues assume "AnalyzeSchema_parse body = Inl issues"
  then show "fst (api_analyze rnd e engine body)
         = Response 400 (JObj (fmupd ''error'' (JStr (ZodError_message e issues)) fmempty))"
    by (simp add: api_analyze_invalid)
next
  fix input err
  assume "AnalyzeSchema_parse body = Inr input
          \<and> geminiGenerateJson_part_001 e (engine input) = Inl err"
  then show "fst (api_analyze rnd e engine body)
         = Response 400 (JObj (fmupd ''error'' (JStr (message e err)) fmempty))"
    by (simp add: api_analyze_engine_failed)
next
  fix raw show "geminiGenerateJson_part_001 e (Resolved False raw) = Inl (Error raw)"
    by (rule gemini_part_001_stages)
next
  fix raw j assume "JSON_parse e (JStr raw) = Inr j \<and> \<not> truthy (modelText_of j)"
  then show "geminiGenerateJson_part_001 e (Resolved True raw)
      = Inl (Error ''No model text returned'')"
    by (simp add: gemini_part_001_stages)
next
  fix raw j m
  assume "JSON_parse e (JStr raw) = Inr j \<and> truthy (modelText_of j)
          \<and> JSON_parse e (modelText_of j) = Inl m"
  then show "geminiGenerateJson_part_001 e (Resolved True raw) = Inl (SyntaxError m)"
    using gemini_part_001_stages(5) by blast
next
  assume "status (fst (api_analyze rnd e engine body)) = 200"
  then show "\<exists>input data. AnalyzeSchema_parse body = Inr input
           \<and> geminiGenerateJson_part_001 e (engine input) = Inr data
           \<and> fst (api_analyze rnd e engine body) = Response 200 (JObj (merged rnd input data))"
    using api_analyze_cases [where rnd = rnd and body = body and e = e and engine = engine]
    by auto
next
  assume "status (fst (api_analyze rnd e engine body)) \<noteq> 200"
  then obtain msg where "fst (api_analyze rnd e engine body)
         = Response 400 (JObj (fmap_of_list [(''error'', JStr msg)]))"
    using api_analyze_cases [where rnd = rnd and body = body and e = e and engine = engine]
    by auto
  then show "status (fst (api_analyze rnd e engine body)) = 400"
    and "\<exists>b msg. body_of (fst (api_analyze rnd e engine body)) = JObj b
              \<and> fmdom b = {|''error''|} \<and> fmlookup b ''error'' = Some (JStr msg)"
    by simp_all
next
  assume "status (fst (api_analyze_server_js e engine body)) \<noteq> 200"
  then obtain msg where "fst (api_analyze_server_js e engine body)
         = Response 400 (JObj (fmap_of_list [(''error'', JStr msg)]))"
    using api_analyze_server_js_cases [of e engine body] by auto
  then show "status (fst (api_analyze_server_js e engine body)) = 400"
    and "\<exists>b msg. body_of (fst (api_analyze_server_js e engine body)) = JObj b
              \<and> fmdom b = {|''error''|} \<and> fmlookup b ''error'' = Some (JStr msg)"
    by simp_all
qed

lemma example_short_body_invalid:
  "AnalyzeSchema_parse (Some example_short_body) = Inl [(''rawNotes'', too_small)]"
  by (simp add: AnalyzeSchema_parse_def example_short_body_def zString_def
      zNumberNullableOptional_def zNumberDefault_def issues_of_def Let_def)

lemma example_candidates_parse:
  "JSON_parse example_env (JStr example_raw) = Inr (example_candidates ''Sure: {}'')"
  "JSON_parse example_env (JStr example_raw_empty)
     = Inr (JObj (fmap_of_list [(''candidates'', JArr [])]))"
  by (simp_all add: example_env_def example_JSON_parse_def
      example_raw_distinct example_raw_distinct [symmetric])

lemma modelText_of_no_candidates:
  "modelText_of (JObj (fmap_of_list [(''candidates'', JArr [])])) = JStr []"
  by (simp add: modelText_of_def opt_chain_def)

theorem failure_answers_single_error_field_witness:
  "fst (api_analyze example_rnd example_env (example_engine (Resolved True example_raw_strict))
          (Some example_short_body))
     = Response 400 (JObj (fmupd ''error'' (JStr ''rawNotes'') fmempty))
   \<and> fst (api_analyze example_rnd example_env (example_engine (Resolved False ''quota exceeded''))
          (Some example_body))
     = Response 400 (JObj (fmupd ''error'' (JStr ''quota exceeded'') fmempty))
   \<and> fst (api_analyze example_rnd example_env (example_engine (Resolved True example_raw_empty))
          (Some example_body))
     = Response 400 (JObj (fmupd ''error'' (JStr ''No model text returned'') fmempty))
   \<and> fst (api_analyze example_rnd example_env (example_engine (Resolved True example_raw))
          (Some example_body))
     = Response 400 (JObj (fmupd ''error'' (JStr ''Unexpected token'') fmempty))"
proof -
  have a: "fst (api_analyze example_rnd example_env (example_engine (Resolved True example_raw_strict))
          (Some example_short_body))
     = Response 400 (JObj (fmupd ''error'' (JStr ''rawNotes'') fmempty))"
    using failure_answers_single_error_field
      [where body = "Some example_short_body" and rnd = example_rnd and e = example_env
          and engine = "example_engine (Resolved True example_raw_strict)",
       THEN conjunct1, rule_format, OF example_short_body_invalid]
    by (simp add: example_env_def example_ZodError_message_def)
  have down: "geminiGenerateJson_part_001 example_env
      (example_engine (Resolved False ''quota exceeded'') example_input)
      = Inl (Error ''quota exceeded'')"
    using failure_answers_single_error_field
      [where body = "Some example_body" and rnd = example_rnd and e = example_env
          and engine = "example_engine (Resolved False ''quota exceeded'')",
       THEN conjunct2, THEN conjunct2, THEN conjunct1, rule_format, of "''quota exceeded''"]
    by (simp add: example_engine_def)
  have b: "fst (api_analyze example_rnd example_env (example_engine (Resolved False ''quota exceeded''))
          (Some example_body))
     = Response 400 (JObj (fmupd ''error'' (JStr ''quota exceeded'') fmempty))"
    using failure_answers_single_error_field
      [where body = "Some example_body" and rnd = example_rnd and e = example_env
          and engine = "example_engine (Resolved False ''quota exceeded'')",
       THEN conjunct2, THEN conjunct1, rule_format,
       of example_input "Error ''quota exceeded''"] example_body_valid down
    by simp
  have empty: "geminiGenerateJson_part_001 example_env
      (example_engine (Resolved True example_raw_empty) example_input)
      = Inl (Error ''No model text returned'')"
    using failure_answers_single_error_field
      [where body = "Some example_body" and rnd = example_rnd and e = example_env
          and engine = "example_engine (Resolved True example_raw_empty)",
       THEN conjunct2, THEN conjunct2, THEN conjunct2, THEN conjunct1, rule_format,
       of example_raw_empty "JObj (fmap_of_list [(''candidates'', JArr [])])"]
      example_candidates_parse(2) modelText_of_no_candidates
    by (simp add: example_engine_def)
  have c: "fst (api_analyze example_rnd example_env (example_engine (Resolved True example_raw_empty))
          (Some example_body))
     = Response 400 (JObj (fmupd ''error'' (JStr ''No model text returned'') fmempty))"
    using failure_answers_single_error_field
      [where body = "Some example_body" and rnd = example_rnd and e = example_env
          and engine = "example_engine (Resolved True example_raw_empty)",
       THEN conjunct2, THEN conjunct1, rule_format,
       of example_input "Error ''No model text returned''"] example_body_valid empty
    by simp
  have malformed: "geminiGenerateJson_part_001 example_env
      (example_engine (Resolved True example_raw) example_input)
      = Inl (SyntaxError ''Unexpected token'')"
    using failure_answers_single_error_field
      [where body = "Some example_body" and rnd = example_rnd and e = example_env
          and engine = "example_engine (Resolved True example_raw)",
       THEN conjunct2, THEN conjunct2, THEN conjunct2, THEN conjunct2, THEN conjunct1,
       rule_format,
       of example_raw "example_candidates ''Sure: {}''" "''Unexpected token''"]
      example_candidates_parse(1) example_parse_text(2)
    by (simp add: example_engine_def modelText_of_example)
  have d: "fst (api_analyze example_rnd example_env (example_engine (Resolved True example_raw))
          (Some example_body))
     = Response 400 (JObj (fmupd ''error'' (JStr ''Unexpected token'') fmempty))"
    using failure_answers_single_error_field
      [where body = "Some example_body" and rnd = example_rnd and e = example_env
          and engine = "example_engine (Resolved True example_raw)",
       THEN conjunct2, THEN conjunct1, rule_format,
       of example_input "SyntaxError ''Unexpected token''"] example_body_valid malformed
    by simp
  show ?thesis using a b c d by simp
qed

section \<open>Properties of the client workflow\<close>

lemma zNumber_of_stringify:
  "zNumberNullableOptional k (Some (if s \<noteq> [] then stringify_number (num s) else JNull))
     = Inr (if s \<noteq> [] then toNumber num s else None)"
  by (cases "num s")
     (simp_all add: zNumberNullableOptional_def stringify_number_def toNumber_def)

lemma App_payload_parse:
  assumes "10 \<le> length notes" and "issue \<noteq> []"
  shows "AnalyzeSchema_parse (Some (JObj (App_payload num notes issue bt ra))) =
           Inr \<lparr>rawNotes = notes, issueType = issue,
                bookingTotal = (if bt \<noteq> [] then toNumber num bt else None),
                refundedAmount = (if ra \<noteq> [] then toNumber num ra else None),
                encouragedRefundCapPercent = 15, maxRefundCapPercent = 20\<rparr>"
proof (rule AnalyzeSchema_parse_ok)
  show "zString 10 ''rawNotes'' (fmlookup (App_payload num notes issue bt ra) ''rawNotes'')
      = Inr notes"
    using assms(1) by (simp add: App_payload_def zString_def)
  show "zString 1 ''issueType'' (fmlookup (App_payload num notes issue bt ra) ''issueType'')
      = Inr issue"
    using assms(2) by (simp add: App_payload_def zString_def)
  show "zNumberNullableOptional ''bookingTotal''
      (fmlookup (App_payload num notes issue bt ra) ''bookingTotal'')
      = Inr (if bt \<noteq> [] then toNumber num bt else None)"
    using zNumber_of_stringify [of "''bookingTotal''" bt num] by (simp add: App_payload_def)
  show "zNumberNullableOptional ''refundedAmount''
      (fmlookup (App_payload num notes issue bt ra) ''refundedAmount'')
      = Inr (if ra \<noteq> [] then toNumber num ra else None)"
    using zNumber_of_stringify [of "''refundedAmount''" ra num] by (simp add: App_payload_def)
  show "zNumberDefault 15 ''encouragedRefundCapPercent''
      (fmlookup (App_payload num notes issue bt ra) ''encouragedRefundCapPercent'') = Inr 15"
    by (simp add: App_payload_def zNumberDefault_def)
  show "zNumberDefault 20 ''maxRefundCapPercent''
      (fmlookup (App_payload num notes issue bt ra) ''maxRefundCapPercent'') = Inr 20"
    by (simp add: App_payload_def zNumberDefault_def)
qed

text \<open>
  Claim C10. \<open>toNumber\<close> turns the empty string into 0, not into the absent value. So
  with a positive booking total and the refunded amount left blank, the form computes the
  refund percent 0 (shown as \<^verbatim>\<open>0.00%\<close>), while the payload carries \<open>refundedAmount = null\<close>
  and the server, once the request validates, computes no refund percent. (Zero is a
  double, so rounding leaves it as it is.)
\<close>

theorem blank_refund_shows_zero_server_unknown:
  assumes "num [] = Finite 0" and "num bt = Finite t" and "0 < t"
    and "10 \<le> length notes" and "issue \<noteq> []" and "rnd 0 = Finite 0"
  shows "toNumber num [] = Some 0
     \<and> App_refundPercent rnd num bt [] = Some (Finite 0)
     \<and> fmlookup (App_payload num notes issue bt []) ''refundedAmount'' = Some JNull
     \<and> (\<exists>input. AnalyzeSchema_parse (Some (JObj (App_payload num notes issue bt []))) = Inr input
           \<and> bookingTotal input = Some t \<and> refundedAmount input = None
           \<and> refundPercent rnd input = None)"
proof -
  from assms(1-3) have ne: "bt \<noteq> []" by auto
  have a: "toNumber num [] = Some 0" using assms(1) by (simp add: toNumber_def)
  have b: "toNumber num bt = Some t" using assms(2) by (simp add: toNumber_def)
  have c: "App_refundPercent rnd num bt [] = Some (Finite 0)"
    using assms(3,6) by (simp add: App_refundPercent_def a b js_times_def)
  have d: "fmlookup (App_payload num notes issue bt []) ''refundedAmount'' = Some JNull"
    by (simp add: App_payload_def)
  have e: "AnalyzeSchema_parse (Some (JObj (App_payload num notes issue bt []))) =
      Inr \<lparr>rawNotes = notes, issueType = issue, bookingTotal = Some t, refundedAmount = None,
           encouragedRefundCapPercent = 15, maxRefundCapPercent = 20\<rparr>"
    using App_payload_parse [OF assms(4,5), of num bt "[]"] ne b by simp
  show ?thesis
    using a c d e assms(3) by (simp add: refundPercent_def)
qed

theorem blank_refund_shows_zero_server_unknown_witness:
  "App_refundPercent example_rnd example_Number ''100'' [] = Some (Finite 0)
   \<and> (\<exists>input. AnalyzeSchema_parse (Some (JObj
          (App_payload example_Number ''guest disputes the charge'' ''Refund'' ''100'' [])))
        = Inr input \<and> refundPercent example_rnd input = None)"
proof -
  have h: "example_Number [] = Finite 0" "example_Number ''100'' = Finite 100" "(0::real) < 100"
    "10 \<le> length ''guest disputes the charge''" "''Refund'' \<noteq> []"
    "example_rnd 0 = Finite 0"
    by (simp_all add: example_Number_def example_rnd_def)
  show ?thesis
    using blank_refund_shows_zero_server_unknown
      [where num = example_Number and bt = "''100''" and rnd = example_rnd, OF h]
    by blast
qed

text \<open>
  Claim C9 says that for every pair of input strings the percent the form shows is the
  server's \<open>computeRefundPercent\<close> of the values in the payload. The code breaks it at the
  booking total \<^verbatim>\<open>100\<close> with a blank refunded amount: the form computes 0, the server reads
  \<open>bookingTotal = 100\<close> and \<open>refundedAmount = null\<close> from the payload and computes the
  absent value.
\<close>

theorem display_differs_from_server_at_blank_refund:
  "App_refundPercent example_rnd example_Number ''100'' [] = Some (Finite 0)
   \<and> AnalyzeSchema_parse (Some (JObj
          (App_payload example_Number ''guest disputes the charge'' ''Refund'' ''100'' [])))
       = Inr \<lparr>rawNotes = ''guest disputes the charge'', issueType = ''Refund'',
              bookingTotal = Some 100, refundedAmount = None,
              encouragedRefundCapPercent = 15, maxRefundCapPercent = 20\<rparr>
   \<and> computeRefundPercent example_rnd (Some 100) None = None"
proof -
  have a: "App_refundPercent example_rnd example_Number ''100'' [] = Some (Finite 0)"
    by (simp add: App_refundPercent_def toNumber_def example_Number_def js_times_def
        example_rnd_def)
  have b: "AnalyzeSchema_parse (Some (JObj
          (App_payload example_Number ''guest disputes the charge'' ''Refund'' ''100'' [])))
       = Inr \<lparr>rawNotes = ''guest disputes the charge'', issueType = ''Refund'',
              bookingTotal = Some 100, refundedAmount = None,
              encouragedRefundCapPercent = 15, maxRefundCapPercent = 20\<rparr>"
    using App_payload_parse [of "''guest disputes the charge''" "''Refund''" example_Number
        "''100''" "[]"]
    by (simp add: toNumber_def example_Number_def)
  show ?thesis using a b by simp
qed

end
